theory Spec2Isabelle
  imports Complex_Main
begin

section \<open>JavaScript values\<close>

text \<open>
  Values that come out of \<^verbatim>\<open>JSON.parse\<close> or out of a property access. \<open>JUndefined\<close> is
  the result of reading a property an object does not have. A number is a real: every
  finite JavaScript number is one.
\<close>

datatype jsval =
    JUndefined
  | JNull
  | JBool bool
  | JNum real
  | JStr string
  | JArr "jsval list"
  | JObj "(string \<times> jsval) list"

text \<open>JavaScript truthiness: \<open>undefined\<close>, \<open>null\<close>, \<open>false\<close>, \<open>0\<close> and \<open>""\<close> are falsy.\<close>

fun truthy :: "jsval \<Rightarrow> bool" where
  "truthy JUndefined = False"
| "truthy JNull = False"
| "truthy (JBool b) = b"
| "truthy (JNum n) = (n \<noteq> 0)"
| "truthy (JStr s) = (s \<noteq> [])"
| "truthy (JArr xs) = True"
| "truthy (JObj kvs) = True"

text \<open>An optional string field of a request body or of a configuration: absent and \<open>""\<close> are falsy.\<close>

fun truthy_str :: "string option \<Rightarrow> bool" where
  "truthy_str None = False"
| "truthy_str (Some s) = (s \<noteq> [])"

section \<open>Provider selection (AIClientManager.getClient)\<close>

datatype client = MistralClient | OpenAIClient

text \<open>
  What \<^verbatim>\<open>this.clients[key]\<close> evaluates to when it is not \<open>undefined\<close>: a registered client,
  or a property that the object literal inherits from \<^verbatim>\<open>Object.prototype\<close>.
\<close>

datatype registry_value = Registered client | Inherited string

record ai_settings =
  provider :: "string option"
  model :: "string option"

record config =
  ai :: "ai_settings option"
  system_prompt :: "string option"
  inventoryEnabled :: bool

text \<open>The constructor's table \<^verbatim>\<open>{ mistral: MistralClient, openai: OpenAIClient }\<close>.\<close>

definition clients :: "string \<Rightarrow> client option" where
  "clients k =
     (if k = ''mistral'' then Some MistralClient
      else if k = ''openai'' then Some OpenAIClient
      else None)"

definition defaultProvider :: string where
  "defaultProvider = ''mistral''"

text \<open>
  The property read \<^verbatim>\<open>this.clients[key]\<close>: own properties first, then the two names that
  \<^verbatim>\<open>Object.prototype\<close> defines in lower case.
\<close>

definition clients_get :: "string \<Rightarrow> registry_value option" where
  "clients_get k =
     (case clients k of
        Some c \<Rightarrow> Some (Registered c)
      | None \<Rightarrow>
          (if k = ''constructor'' \<or> k = ''__proto__'' then Some (Inherited k) else None))"

definition lower_char :: "char \<Rightarrow> char" where
  "lower_char c =
     (let n = (of_char c :: nat) in
      if 65 \<le> n \<and> n \<le> 90
      then (case c of Char b0 b1 b2 b3 b4 b5 b6 b7 \<Rightarrow> Char b0 b1 b2 b3 b4 True b6 b7)
      else c)"

definition toLowerCase :: "string \<Rightarrow> string" where
  "toLowerCase s = map lower_char s"

definition default_client :: registry_value where
  "default_client = (case clients_get defaultProvider of Some v \<Rightarrow> v | None \<Rightarrow> Inherited [])"

text \<open>
  \<^verbatim>\<open>getClient(config = {})\<close>. \<open>None\<close> is a \<open>null\<close> configuration; the default parameter
  \<^verbatim>\<open>{}\<close> is a configuration without \<open>ai\<close>.
\<close>

definition getClient :: "config option \<Rightarrow> registry_value" where
  "getClient cfg =
     (case cfg of
        None \<Rightarrow> default_client
      | Some c \<Rightarrow>
          (case ai c of
             None \<Rightarrow> default_client
           | Some a \<Rightarrow>
               (case provider a of
                  None \<Rightarrow> default_client
                | Some name \<Rightarrow>
                    (if name = [] then default_client
                     else
                       (let p = toLowerCase name in
                        case clients_get p of
                          None \<Rightarrow> default_client
                        | Some v \<Rightarrow> v)))))"

text \<open>The provider name a configuration declares, if it declares one.\<close>

definition provider_name :: "config option \<Rightarrow> string option" where
  "provider_name cfg =
     (case cfg of
        None \<Rightarrow> None
      | Some c \<Rightarrow>
          (case ai c of
             None \<Rightarrow> None
           | Some a \<Rightarrow> (if truthy_str (provider a) then provider a else None)))"

section \<open>Errors and property access\<close>

text \<open>
  An HTTP call that fails rejects with an axios error: \<open>response\<close> is present when the
  server answered with a status outside 2xx, \<open>request\<close> tells whether \<^verbatim>\<open>error.request\<close> is
  set, \<open>code\<close> is the network error code.
\<close>

record http_err_response =
  status :: int
  data :: jsval

record http_error =
  response :: "http_err_response option"
  request :: bool
  code :: "string option"
  message :: string

text \<open>What a \<^verbatim>\<open>catch\<close> block can receive inside the clients.\<close>

datatype js_exn = AxiosError http_error | TypeError | SyntaxError

text \<open>The outcome of one HTTP attempt: the body of a 2xx answer, or a rejection.\<close>

datatype http_outcome = Responded jsval | Failed http_error

definition ebind :: "'e + 'a \<Rightarrow> ('a \<Rightarrow> 'e + 'b) \<Rightarrow> 'e + 'b" where
  "ebind x f = (case x of Inl e \<Rightarrow> Inl e | Inr a \<Rightarrow> f a)"

text \<open>
  \<^verbatim>\<open>v.name\<close> for a name that no prototype defines: a \<open>TypeError\<close> on \<open>undefined\<close> and
  \<open>null\<close>, the stored value on an object (the last one, should a key occur twice),
  \<open>undefined\<close> otherwise.
\<close>

fun get_prop :: "jsval \<Rightarrow> string \<Rightarrow> js_exn + jsval" where
  "get_prop JUndefined k = Inl TypeError"
| "get_prop JNull k = Inl TypeError"
| "get_prop (JObj kvs) k = Inr (case map_of (rev kvs) k of None \<Rightarrow> JUndefined | Some v \<Rightarrow> v)"
| "get_prop v k = Inr JUndefined"

text \<open>\<^verbatim>\<open>v[0]\<close>.\<close>

fun index0 :: "jsval \<Rightarrow> js_exn + jsval" where
  "index0 JUndefined = Inl TypeError"
| "index0 JNull = Inl TypeError"
| "index0 (JArr xs) = Inr (case xs of [] \<Rightarrow> JUndefined | x # _ \<Rightarrow> x)"
| "index0 (JObj kvs) = Inr (case map_of (rev kvs) ''0'' of None \<Rightarrow> JUndefined | Some v \<Rightarrow> v)"
| "index0 (JStr s) = Inr (case s of [] \<Rightarrow> JUndefined | c # _ \<Rightarrow> JStr [c])"
| "index0 v = Inr JUndefined"

text \<open>\<^verbatim>\<open>v?.name\<close>: \<open>undefined\<close> when \<open>v\<close> is \<open>undefined\<close> or \<open>null\<close>.\<close>

fun opt_prop :: "jsval \<Rightarrow> string \<Rightarrow> jsval" where
  "opt_prop (JObj kvs) k = (case map_of (rev kvs) k of None \<Rightarrow> JUndefined | Some v \<Rightarrow> v)"
| "opt_prop v k = JUndefined"

section \<open>Strings\<close>

definition starts_with :: "string \<Rightarrow> string \<Rightarrow> bool" where
  "starts_with pat s = (take (length pat) s = pat)"

text \<open>\<^verbatim>\<open>s.includes(pat)\<close>.\<close>

fun str_includes :: "string \<Rightarrow> string \<Rightarrow> bool" where
  "str_includes pat [] = (pat = [])"
| "str_includes pat (c # cs) = (starts_with pat (c # cs) \<or> str_includes pat cs)"

text \<open>\<^verbatim>\<open>s.replace(pat, '')\<close> for a non-empty string \<open>pat\<close>: the first occurrence is removed.\<close>

fun remove_first :: "string \<Rightarrow> string \<Rightarrow> string" where
  "remove_first pat [] = []"
| "remove_first pat (c # cs) =
     (if starts_with pat (c # cs) then drop (length pat) (c # cs) else c # remove_first pat cs)"

text \<open>\<^verbatim>\<open>s.replace(/^data: /, '')\<close>.\<close>

definition strip_data_prefix :: "string \<Rightarrow> string" where
  "strip_data_prefix s = (if starts_with ''data: '' s then drop 6 s else s)"

text \<open>
  \<^verbatim>\<open>trim\<close> on the UTF-8 bytes of a string. JavaScript's white space and line terminators
  are the one-byte characters tab, line feed, vertical tab, form feed, carriage return and
  space, the two-byte character U+00A0, and the three-byte characters U+1680, U+2000 to
  U+200A, U+2028, U+2029, U+202F, U+205F, U+3000 and U+FEFF.
\<close>

definition is_space :: "char \<Rightarrow> bool" where
  "is_space c = ((of_char c :: nat) \<in> {9, 10, 11, 12, 13, 32})"

definition is_space2 :: "char \<Rightarrow> char \<Rightarrow> bool" where
  "is_space2 a b = ((of_char a :: nat) = 0xC2 \<and> (of_char b :: nat) = 0xA0)"

definition is_space3 :: "char \<Rightarrow> char \<Rightarrow> char \<Rightarrow> bool" where
  "is_space3 a b c =
     (let x = (of_char a :: nat); y = (of_char b :: nat); z = (of_char c :: nat) in
      (x = 0xE1 \<and> y = 0x9A \<and> z = 0x80) \<or>
      (x = 0xE2 \<and> y = 0x80 \<and> ((0x80 \<le> z \<and> z \<le> 0x8A) \<or> z = 0xA8 \<or> z = 0xA9 \<or> z = 0xAF)) \<or>
      (x = 0xE2 \<and> y = 0x81 \<and> z = 0x9F) \<or>
      (x = 0xE3 \<and> y = 0x80 \<and> z = 0x80) \<or>
      (x = 0xEF \<and> y = 0xBB \<and> z = 0xBF))"

text \<open>The white space at the start of a string is dropped, character by character.\<close>

fun trim_start :: "string \<Rightarrow> string" where
  "trim_start (a # b # c # rest) =
     (if is_space a then trim_start (b # c # rest)
      else if is_space2 a b then trim_start (c # rest)
      else if is_space3 a b c then trim_start rest
      else a # b # c # rest)"
| "trim_start [a, b] =
     (if is_space a then trim_start [b] else if is_space2 a b then [] else [a, b])"
| "trim_start [a] = (if is_space a then [] else [a])"
| "trim_start [] = []"

text \<open>The same from the end, on the reversed string: the bytes of a character come last first.\<close>

fun trim_end_rev :: "string \<Rightarrow> string" where
  "trim_end_rev (c # b # a # rest) =
     (if is_space c then trim_end_rev (b # a # rest)
      else if is_space2 b c then trim_end_rev (a # rest)
      else if is_space3 a b c then trim_end_rev rest
      else c # b # a # rest)"
| "trim_end_rev [b, a] =
     (if is_space b then trim_end_rev [a] else if is_space2 a b then [] else [b, a])"
| "trim_end_rev [a] = (if is_space a then [] else [a])"
| "trim_end_rev [] = []"

definition trim :: "string \<Rightarrow> string" where
  "trim s = rev (trim_end_rev (rev (trim_start s)))"

text \<open>\<^verbatim>\<open>s.split('\n')\<close>.\<close>

fun split_nl :: "string \<Rightarrow> string list" where
  "split_nl [] = [[]]"
| "split_nl (c # cs) =
     (if c = CHR 0x0A then [] # split_nl cs
      else (case split_nl cs of [] \<Rightarrow> [[c]] | l # ls \<Rightarrow> (c # l) # ls))"

section \<open>Retry policy of the provider clients\<close>

definition has_status :: "http_error \<Rightarrow> int \<Rightarrow> bool" where
  "has_status e n = (case response e of None \<Rightarrow> False | Some r \<Rightarrow> status r = n)"

definition status_ge :: "http_error \<Rightarrow> int \<Rightarrow> bool" where
  "status_ge e n = (case response e of None \<Rightarrow> False | Some r \<Rightarrow> status r \<ge> n)"

text \<open>
  The second operand of the \<^verbatim>\<open>||\<close> in MistralClient's model-not-found test:
  \<^verbatim>\<open>error.response.data && error.response.data.error &&
  error.response.data.error.includes('model not found')\<close>. It reads \<^verbatim>\<open>error.response.data\<close>
  without testing \<^verbatim>\<open>error.response\<close>, and calls \<^verbatim>\<open>includes\<close> on whatever \<open>error\<close>
  holds.
\<close>

definition mistral_model_not_found :: "http_error \<Rightarrow> js_exn + bool" where
  "mistral_model_not_found e =
     (case response e of
        None \<Rightarrow> Inl TypeError
      | Some r \<Rightarrow>
          (if \<not> truthy (data r) then Inr False
           else
             ebind (get_prop (data r) ''error'') (\<lambda>er.
               if \<not> truthy er then Inr False
               else
                 (case er of
                    JStr s \<Rightarrow> Inr (str_includes ''model not found'' s)
                  | JArr xs \<Rightarrow> Inr (JStr ''model not found'' \<in> set xs)
                  | _ \<Rightarrow> Inl TypeError))))"

definition network_codes :: "string list" where
  "network_codes = [''ECONNRESET'', ''ETIMEDOUT'', ''ECONNABORTED'', ''ENOTFOUND'', ''EAI_AGAIN'']"

text \<open>
  \<^verbatim>\<open>MistralClient._shouldRetryRequest\<close>. In the third test \<^verbatim>\<open>&&\<close> binds tighter than
  \<^verbatim>\<open>||\<close>: the condition is (response and status 404) or (the model-not-found operand).
\<close>

definition mistral_shouldRetryRequest :: "http_error \<Rightarrow> js_exn + bool" where
  "mistral_shouldRetryRequest e =
     (if has_status e 401 then Inr False
      else if has_status e 400 then Inr False
      else
        ebind (if has_status e 404 then Inr True else mistral_model_not_found e) (\<lambda>c.
          if c then Inr False
          else if has_status e 429 then Inr True
          else if status_ge e 500 then Inr True
          else if (case code e of None \<Rightarrow> False | Some c \<Rightarrow> c \<noteq> [] \<and> c \<in> set network_codes)
            then Inr True
          else Inr True))"

text \<open>
  The test inside OpenAIClient's 404 branch: \<^verbatim>\<open>error.response.data &&
  error.response.data.error && error.response.data.error.message &&
  error.response.data.error.message.includes('model')\<close>. It calls \<^verbatim>\<open>includes\<close> on whatever
  \<open>message\<close> holds.
\<close>

definition openai_model_message :: "http_err_response \<Rightarrow> js_exn + bool" where
  "openai_model_message r =
     (if \<not> truthy (data r) then Inr False
      else
        ebind (get_prop (data r) ''error'') (\<lambda>er.
          if \<not> truthy er then Inr False
          else
            ebind (get_prop er ''message'') (\<lambda>m.
              if \<not> truthy m then Inr False
              else
                (case m of
                   JStr s \<Rightarrow> Inr (str_includes ''model'' s)
                 | JArr xs \<Rightarrow> Inr (JStr ''model'' \<in> set xs)
                 | _ \<Rightarrow> Inl TypeError))))"

text \<open>
  \<^verbatim>\<open>OpenAIClient._shouldRetryRequest\<close>: for the status 400, 401 or 404 both branches
  return \<open>false\<close>, after the model test when the status is 404.
\<close>

definition openai_shouldRetryRequest :: "http_error \<Rightarrow> js_exn + bool" where
  "openai_shouldRetryRequest e =
     (case response e of
        Some r \<Rightarrow>
          (if status r = 400 \<or> status r = 401 \<or> status r = 404 then
             (if status r = 404 then ebind (openai_model_message r) (\<lambda>c. Inr False)
              else Inr False)
           else Inr (status r = 429 \<or> status r \<ge> 500))
      | None \<Rightarrow>
          (if code e = Some ''ECONNRESET'' \<or> code e = Some ''ETIMEDOUT''
              \<or> code e = Some ''ECONNABORTED'' \<or> str_includes ''timeout'' (message e)
           then Inr True
           else Inr False))"

definition maxRetries :: nat where
  "maxRetries = 3"

text \<open>
  The delay before the next attempt, from the retry counter after its increment and the
  value of \<^verbatim>\<open>Math.random()\<close>. MistralClient adds the jitter to the base delay; OpenAIClient
  also caps the sum.
\<close>

definition mistral_delay :: "nat \<Rightarrow> real \<Rightarrow> real" where
  "mistral_delay retries r = 2 ^ retries * 1000 + r * 1000"

definition openai_delay :: "nat \<Rightarrow> real \<Rightarrow> real" where
  "openai_delay retries r = min (1000 * 2 ^ retries + r * 1000) 10000"

text \<open>
  The state of the retry loop when it is left: what the \<^verbatim>\<open>try\<close> block holds (the body of
  the answer, \<open>None\<close> when \<^verbatim>\<open>response\<close> was never assigned, or the exception thrown), the
  number of HTTP calls made and the delays waited between them.
\<close>

record loop_result =
  outcome :: "js_exn + jsval option"
  calls :: nat
  waits :: "real list"

text \<open>
  The \<^verbatim>\<open>while (retries < maxRetries)\<close> loop of \<^verbatim>\<open>generateResponse\<close>, the same in both
  clients up to the retry test and the delay. \<open>post n\<close> is the outcome of the HTTP call
  number \<open>n\<close> (from 0), \<open>rnd k\<close> the value of the call number \<open>k\<close> of \<^verbatim>\<open>Math.random()\<close>.
\<close>

function retry_loop ::
  "(http_error \<Rightarrow> js_exn + bool) \<Rightarrow> (nat \<Rightarrow> real \<Rightarrow> real) \<Rightarrow>
   (nat \<Rightarrow> http_outcome) \<Rightarrow> (nat \<Rightarrow> real) \<Rightarrow> nat \<Rightarrow> nat \<Rightarrow> real list \<Rightarrow> loop_result"
where
  "retry_loop shouldRetry delay post rnd retries n ws =
     (if retries < maxRetries then
        (case post n of
           Responded d \<Rightarrow> \<lparr>outcome = Inr (Some d), calls = Suc n, waits = ws\<rparr>
         | Failed e \<Rightarrow>
             (case shouldRetry e of
                Inl x \<Rightarrow> \<lparr>outcome = Inl x, calls = Suc n, waits = ws\<rparr>
              | Inr False \<Rightarrow> \<lparr>outcome = Inl (AxiosError e), calls = Suc n, waits = ws\<rparr>
              | Inr True \<Rightarrow>
                  (if Suc retries \<ge> maxRetries
                   then \<lparr>outcome = Inl (AxiosError e), calls = Suc n, waits = ws\<rparr>
                   else retry_loop shouldRetry delay post rnd (Suc retries) (Suc n)
                          (ws @ [delay (Suc retries) (rnd (length ws))]))))
      else \<lparr>outcome = Inr None, calls = n, waits = ws\<rparr>)"
  by pat_completeness auto
termination
  by (relation "measure (\<lambda>(shouldRetry, delay, post, rnd, retries, n, ws). maxRetries - retries)")
     (auto simp: maxRetries_def)

text \<open>The errors \<^verbatim>\<open>generateResponse\<close> throws from its outer \<^verbatim>\<open>catch\<close>.\<close>

datatype client_error =
    AuthenticationFailed
  | RateLimitExceeded
  | ServerError
  | NoResponse
  | Failure js_exn

text \<open>
  The outer \<^verbatim>\<open>catch\<close>: a status of 401, 429 or at least 500 gives its own message, a
  rejection without response but with a request gives the network message, everything else
  the generic message built from the caught exception.
\<close>

definition classify :: "js_exn \<Rightarrow> client_error" where
  "classify x =
     (case x of
        TypeError \<Rightarrow> Failure TypeError
      | SyntaxError \<Rightarrow> Failure SyntaxError
      | AxiosError e \<Rightarrow>
          (case response e of
             Some r \<Rightarrow>
               (if status r = 401 then AuthenticationFailed
                else if status r = 429 then RateLimitExceeded
                else if status r \<ge> 500 then ServerError
                else Failure x)
           | None \<Rightarrow> (if request e then NoResponse else Failure x)))"

text \<open>\<^verbatim>\<open>response.data.choices[0].message.content\<close>, \<^verbatim>\<open>response.data.model\<close> and \<^verbatim>\<open>response.data.usage\<close>.\<close>

definition reply_fields :: "jsval option \<Rightarrow> js_exn + (string \<times> jsval) list" where
  "reply_fields resp =
     (case resp of
        None \<Rightarrow> Inl TypeError
      | Some d \<Rightarrow>
          ebind (get_prop d ''choices'') (\<lambda>cs.
          ebind (index0 cs) (\<lambda>c0.
          ebind (get_prop c0 ''message'') (\<lambda>m.
          ebind (get_prop m ''content'') (\<lambda>r.
          ebind (get_prop d ''model'') (\<lambda>mo.
          ebind (get_prop d ''usage'') (\<lambda>u.
            Inr [(''reply'', r), (''model'', mo), (''usage'', u)])))))))"

record gen_result =
  returned :: "client_error + jsval"
  http_calls :: nat
  delays :: "real list"

text \<open>
  \<^verbatim>\<open>MistralClient.generateResponse\<close>: the object it returns has the fields \<open>reply\<close>,
  \<open>model\<close>, \<open>usage\<close> and \<open>latency\<close>. The request body does not influence the control flow;
  it is modelled below.
\<close>

declare retry_loop.simps [simp del]

definition mistral_generateResponse ::
  "(nat \<Rightarrow> http_outcome) \<Rightarrow> (nat \<Rightarrow> real) \<Rightarrow> real \<Rightarrow> gen_result" where
  "mistral_generateResponse post rnd latency =
     (let st = retry_loop mistral_shouldRetryRequest mistral_delay post rnd 0 0 [] in
      \<lparr>returned =
         (case ebind (outcome st) reply_fields of
            Inl x \<Rightarrow> Inl (classify x)
          | Inr fs \<Rightarrow> Inr (JObj (fs @ [(''latency'', JNum latency)]))),
       http_calls = calls st,
       delays = waits st\<rparr>)"

text \<open>\<^verbatim>\<open>OpenAIClient.generateResponse\<close>: the fields \<open>reply\<close>, \<open>model\<close> and \<open>usage\<close>.\<close>

definition openai_generateResponse ::
  "(nat \<Rightarrow> http_outcome) \<Rightarrow> (nat \<Rightarrow> real) \<Rightarrow> gen_result" where
  "openai_generateResponse post rnd =
     (let st = retry_loop openai_shouldRetryRequest openai_delay post rnd 0 0 [] in
      \<lparr>returned =
         (case ebind (outcome st) reply_fields of
            Inl x \<Rightarrow> Inl (classify x)
          | Inr fs \<Rightarrow> Inr (JObj fs)),
       http_calls = calls st,
       delays = waits st\<rparr>)"

section \<open>The outbound message list\<close>

record chat_message =
  role :: string
  content :: string

text \<open>The options a client receives: \<^verbatim>\<open>system_prompt\<close>, \<^verbatim>\<open>userLanguage\<close>, \<^verbatim>\<open>inventoryAccess\<close>.\<close>

record gen_options =
  opt_system_prompt :: "string option"
  userLanguage :: "string option"
  inventoryAccess :: bool

definition default_prompt :: string where
  "default_prompt = ''You are a helpful AI assistant.''"

definition language_prompt :: string where
  \<open>language_prompt =
     ''You are a friendly and helpful AI assistant. Always greet the user appropriate'' @
     ''ly when they say hello, hi, namaste, or any other greeting. Respond to basic g'' @
     ''reetings and questions like "how are you" in a conversational manner. Please r'' @
     ''espond in the same language as the user. If the user speaks in Hindi, respond '' @
     ''in Hindi. If they speak in English, respond in English. If they speak in any o'' @
     ''ther language, try to respond in that same language.''\<close>

definition inventory_instruction :: string where
  \<open>inventory_instruction =
     ''\<newline>\<newline>IMPORTANT INSTRUCTION: You have access to the product inve'' @
     ''ntory information from the '' @
     [CHR 0x27] @
     ''productinventories'' @
     [CHR 0x27] @
     '' collection. You MUST ONLY provide information about products that are availab'' @
     ''le in the inventory data. If a user asks about a product or any information th'' @
     ''at is not in the inventory data, you MUST respond that you don'' @
     [CHR 0x27] @
     ''t have that information or the product is not available in your inventory. DO '' @
     ''NOT provide any information from your general knowledge about products, specif'' @
     ''ications, or any other details that are not explicitly mentioned in the invent'' @
     ''ory data provided to you. Always check if the product exists in the inventory '' @
     ''before responding.\<newline>\<newline>When a user asks about product availabil'' @
     ''ity, you should respond in the same language as the user. If the user speaks i'' @
     ''n Hindi, respond in Hindi. If they speak in English, respond in English.'' @
     ''\<newline>\<newline>For product inventory queries, you can help users with:'' @
     ''\<newline>1. Checking if a product is available in stock\<newline>2. Providing'' @
     '' information about available quantity\<newline>3. Helping place orders for ava'' @
     ''ilable products\<newline>4. Suggesting alternatives if a product is out of sto'' @
     ''ck\<newline>\<newline>The product inventory database contains information such'' @
     '' as product name, SKU, available stock, and unit of measurement.''\<close>

text \<open>
  The system prompt of \<^verbatim>\<open>generateResponse\<close>: the configured prompt, else the language
  prompt, else the default; the inventory instruction is then appended when
  \<^verbatim>\<open>inventoryAccess\<close> is set.
\<close>

definition systemPrompt :: "gen_options \<Rightarrow> string" where
  "systemPrompt opts =
     (let base =
        (if truthy_str (opt_system_prompt opts) then the (opt_system_prompt opts)
         else if truthy_str (userLanguage opts) then language_prompt
         else default_prompt)
      in if inventoryAccess opts then base @ inventory_instruction else base)"

text \<open>\<^verbatim>\<open>msg => ({ role: msg.role === 'bot' ? 'assistant' : 'user', content: msg.content })\<close>.\<close>

definition vendor_message :: "chat_message \<Rightarrow> chat_message" where
  "vendor_message msg =
     \<lparr>role = (if role msg = ''bot'' then ''assistant'' else ''user''), content = content msg\<rparr>"

text \<open>The \<^verbatim>\<open>messages\<close> field of the request of \<^verbatim>\<open>generateResponse\<close>.\<close>

definition generate_messages :: "gen_options \<Rightarrow> chat_message list \<Rightarrow> chat_message list" where
  "generate_messages opts messages =
     \<lparr>role = ''system'', content = systemPrompt opts\<rparr> # map vendor_message messages"

text \<open>The \<^verbatim>\<open>messages\<close> field of the request of \<^verbatim>\<open>generateStreamingResponse\<close>.\<close>

definition stream_messages :: "chat_message list \<Rightarrow> chat_message list" where
  "stream_messages messages = map vendor_message messages"

text \<open>The options \<^verbatim>\<open>AIClientManager.generateResponse\<close> hands to the client.\<close>

definition manager_options :: "config \<Rightarrow> gen_options" where
  "manager_options cfg =
     \<lparr>opt_system_prompt = system_prompt cfg, userLanguage = None, inventoryAccess = True\<rparr>"

section \<open>AIClientManager.generateResponse\<close>

text \<open>
  What the manager's \<^verbatim>\<open>generateResponse\<close> throws: the client's error, or a
  \<open>TypeError\<close> of its own.
\<close>

datatype manager_error = FromClient client_error | ManagerTypeError

text \<open>
  \<^verbatim>\<open>generateResponse(sessionId, messages, config = {})\<close>: the client is selected, the
  options are read from the configuration and the client is called. On a \<open>null\<close>
  configuration (\<open>None\<close>) reading \<^verbatim>\<open>config.ai?.model\<close> throws; a selected value that is
  not a client has no \<^verbatim>\<open>generateResponse\<close> to call.
\<close>

definition aiClientManager_generateResponse ::
  "(nat \<Rightarrow> http_outcome) \<Rightarrow> (nat \<Rightarrow> real) \<Rightarrow> real \<Rightarrow> config option \<Rightarrow> manager_error + jsval"
where
  "aiClientManager_generateResponse post rnd latency cfg =
     (case cfg of
        None \<Rightarrow> Inl ManagerTypeError
      | Some c \<Rightarrow>
          (case getClient cfg of
             Registered MistralClient \<Rightarrow>
               (case returned (mistral_generateResponse post rnd latency) of
                  Inl e \<Rightarrow> Inl (FromClient e) | Inr v \<Rightarrow> Inr v)
           | Registered OpenAIClient \<Rightarrow>
               (case returned (openai_generateResponse post rnd) of
                  Inl e \<Rightarrow> Inl (FromClient e) | Inr v \<Rightarrow> Inr v)
           | Inherited k \<Rightarrow> Inl ManagerTypeError))"

section \<open>Streaming\<close>

text \<open>
  The calls of the sink, in order: MistralClient calls \<^verbatim>\<open>onChunk(content, false)\<close> and
  \<^verbatim>\<open>onChunk(null, true)\<close>, OpenAIClient \<^verbatim>\<open>onChunk({ content })\<close> and
  \<^verbatim>\<open>onChunk({ done: true })\<close>.
\<close>

datatype sink_call = Content jsval | Done

datatype stream_event = Data string | End

text \<open>
  \<^verbatim>\<open>JSON.parse\<close> is a parameter of the model, from the value it is given to the value it
  returns, \<open>None\<close> when it throws. \<^verbatim>\<open>parsed.choices[0]?.delta?.content\<close>:
\<close>

definition delta_content :: "jsval \<Rightarrow> js_exn + jsval" where
  "delta_content parsed =
     ebind (get_prop parsed ''choices'') (\<lambda>cs.
     ebind (index0 cs) (\<lambda>c0.
       Inr (opt_prop (opt_prop c0 ''delta'') ''content'')))"

text \<open>The \<^verbatim>\<open>try\<close> block of both handlers: a content that is truthy is handed to the sink, an exception is logged.\<close>

definition forward_content :: "(jsval \<Rightarrow> jsval option) \<Rightarrow> string \<Rightarrow> sink_call list" where
  "forward_content JSON_parse text =
     (case JSON_parse (JStr text) of
        None \<Rightarrow> []
      | Some parsed \<Rightarrow>
          (case delta_content parsed of
             Inl x \<Rightarrow> []
           | Inr c \<Rightarrow> (if truthy c then [Content c] else [])))"

text \<open>The body of MistralClient's loop over the lines of a chunk.\<close>

definition mistral_line :: "(jsval \<Rightarrow> jsval option) \<Rightarrow> string \<Rightarrow> sink_call list" where
  "mistral_line JSON_parse line =
     (if str_includes ''data:'' line then
        (let d = trim (remove_first ''data:'' line) in
         if d = ''[DONE]'' then [Done] else forward_content JSON_parse d)
      else [])"

definition chunk_lines :: "string \<Rightarrow> string list" where
  "chunk_lines chunk = filter (\<lambda>line. trim line \<noteq> []) (split_nl chunk)"

definition mistral_on_data :: "(jsval \<Rightarrow> jsval option) \<Rightarrow> string \<Rightarrow> sink_call list" where
  "mistral_on_data JSON_parse chunk = concat (map (mistral_line JSON_parse) (chunk_lines chunk))"

text \<open>MistralClient's handlers: \<^verbatim>\<open>'end'\<close> only logs.\<close>

fun mistral_stream :: "(jsval \<Rightarrow> jsval option) \<Rightarrow> stream_event list \<Rightarrow> sink_call list" where
  "mistral_stream JSON_parse [] = []"
| "mistral_stream JSON_parse (Data chunk # evs) =
     mistral_on_data JSON_parse chunk @ mistral_stream JSON_parse evs"
| "mistral_stream JSON_parse (End # evs) = mistral_stream JSON_parse evs"

text \<open>
  OpenAIClient's loop over the lines of a chunk: a line that contains \<^verbatim>\<open>[DONE]\<close> signals
  completion and returns from the handler.
\<close>

fun openai_lines :: "(jsval \<Rightarrow> jsval option) \<Rightarrow> string list \<Rightarrow> sink_call list" where
  "openai_lines JSON_parse [] = []"
| "openai_lines JSON_parse (line # ls) =
     (if str_includes ''[DONE]'' line then [Done]
      else forward_content JSON_parse (trim (strip_data_prefix line)) @ openai_lines JSON_parse ls)"

definition openai_on_data :: "(jsval \<Rightarrow> jsval option) \<Rightarrow> string \<Rightarrow> sink_call list" where
  "openai_on_data JSON_parse chunk = openai_lines JSON_parse (chunk_lines chunk)"

text \<open>OpenAIClient's handlers: \<^verbatim>\<open>'end'\<close> signals completion.\<close>

fun openai_stream :: "(jsval \<Rightarrow> jsval option) \<Rightarrow> stream_event list \<Rightarrow> sink_call list" where
  "openai_stream JSON_parse [] = []"
| "openai_stream JSON_parse (Data chunk # evs) =
     openai_on_data JSON_parse chunk @ openai_stream JSON_parse evs"
| "openai_stream JSON_parse (End # evs) = Done # openai_stream JSON_parse evs"

text \<open>
  A stream of lines, each ended by a line feed, cut into chunks at line ends; a data line is
  the prefix \<^verbatim>\<open>data: \<close> followed by its payload.
\<close>

definition unlines_nl :: "string list \<Rightarrow> string" where
  "unlines_nl ls = concat (map (\<lambda>l. l @ [CHR 0x0A]) ls)"

definition data_line :: "string \<Rightarrow> string" where
  "data_line payload = ''data: '' @ payload"

definition line_chunks :: "string list list \<Rightarrow> stream_event list" where
  "line_chunks groups = map (\<lambda>g. Data (unlines_nl g)) groups"

section \<open>A reference JSON.parse\<close>

text \<open>
  An instance of the parameter \<open>JSON_parse\<close> for concrete inputs: a recursive-descent parser
  of JSON text with integer numbers and the escapes of ASCII characters. The fuel bounds the
  nesting and the number of elements; the length of the text suffices.
\<close>

definition is_json_ws :: "char \<Rightarrow> bool" where
  "is_json_ws c = ((of_char c :: nat) \<in> {9, 10, 13, 32})"

definition skip_ws :: "string \<Rightarrow> string" where
  "skip_ws s = dropWhile is_json_ws s"

definition is_digit :: "char \<Rightarrow> bool" where
  "is_digit c = (48 \<le> (of_char c :: nat) \<and> (of_char c :: nat) \<le> 57)"

definition digit_val :: "char \<Rightarrow> nat" where
  "digit_val c = of_char c - 48"

definition digits_val :: "string \<Rightarrow> nat" where
  "digits_val ds = foldl (\<lambda>acc c. 10 * acc + digit_val c) 0 ds"

text \<open>A number: an optional minus sign and digits without a leading zero; no fraction, no exponent.\<close>

definition parse_number :: "string \<Rightarrow> (jsval \<times> string) option" where
  "parse_number s =
     (let neg = (s \<noteq> [] \<and> hd s = CHR ''-'');
          body = (if neg then tl s else s);
          ds = takeWhile is_digit body;
          rest = dropWhile is_digit body
      in if ds = [] \<or> (length ds > 1 \<and> hd ds = CHR ''0'') then None
         else if rest \<noteq> [] \<and> hd rest \<in> {CHR ''.'', CHR ''e'', CHR ''E''} then None
         else Some (JNum (if neg then - real (digits_val ds) else real (digits_val ds)), rest))"

text \<open>The characters of a string after its opening quote, up to the closing quote.\<close>

fun parse_chars :: "string \<Rightarrow> (string \<times> string) option" where
  "parse_chars [] = None"
| "parse_chars (c # cs) =
     (if c = CHR 0x22 then Some ([], cs)
      else if (of_char c :: nat) < 32 then None
      else if c = CHR 0x5C then
        (case cs of
           [] \<Rightarrow> None
         | e # cs' \<Rightarrow>
             (let plain = (\<lambda>ch. map_option (\<lambda>(str, rest). (ch # str, rest)) (parse_chars cs')) in
              if e = CHR 0x22 \<or> e = CHR 0x5C \<or> e = CHR ''/'' then plain e
              else if e = CHR ''b'' then plain (CHR 0x08)
              else if e = CHR ''f'' then plain (CHR 0x0C)
              else if e = CHR ''n'' then plain (CHR 0x0A)
              else if e = CHR ''r'' then plain (CHR 0x0D)
              else if e = CHR ''t'' then plain (CHR 0x09)
              else None))
      else map_option (\<lambda>(str, rest). (c # str, rest)) (parse_chars cs))"

fun parse_value :: "nat \<Rightarrow> string \<Rightarrow> (jsval \<times> string) option"
  and parse_elements :: "nat \<Rightarrow> string \<Rightarrow> (jsval list \<times> string) option"
  and parse_members :: "nat \<Rightarrow> string \<Rightarrow> ((string \<times> jsval) list \<times> string) option"
where
  "parse_value 0 s = None"
| "parse_value (Suc f) s =
     (let t = skip_ws s in
      if t = [] then None
      else if hd t = CHR 0x22 then map_option (\<lambda>(str, rest). (JStr str, rest)) (parse_chars (tl t))
      else if hd t = CHR ''['' then
        (let u = skip_ws (tl t) in
         if u \<noteq> [] \<and> hd u = CHR '']'' then Some (JArr [], tl u)
         else map_option (\<lambda>(vs, rest). (JArr vs, rest)) (parse_elements f u))
      else if hd t = CHR ''{'' then
        (let u = skip_ws (tl t) in
         if u \<noteq> [] \<and> hd u = CHR ''}'' then Some (JObj [], tl u)
         else map_option (\<lambda>(kvs, rest). (JObj kvs, rest)) (parse_members f u))
      else if starts_with ''null'' t then Some (JNull, drop 4 t)
      else if starts_with ''true'' t then Some (JBool True, drop 4 t)
      else if starts_with ''false'' t then Some (JBool False, drop 5 t)
      else parse_number t)"
| "parse_elements 0 s = None"
| "parse_elements (Suc f) s =
     (case parse_value f s of
        None \<Rightarrow> None
      | Some (v, rest) \<Rightarrow>
          (let t = skip_ws rest in
           if t = [] then None
           else if hd t = CHR '']'' then Some ([v], tl t)
           else if hd t = CHR '','' then
             map_option (\<lambda>(vs, rest'). (v # vs, rest')) (parse_elements f (tl t))
           else None))"
| "parse_members 0 s = None"
| "parse_members (Suc f) s =
     (let t = skip_ws s in
      if t = [] \<or> hd t \<noteq> CHR 0x22 then None
      else
        (case parse_chars (tl t) of
           None \<Rightarrow> None
         | Some (k, rest) \<Rightarrow>
             (let u = skip_ws rest in
              if u = [] \<or> hd u \<noteq> CHR '':'' then None
              else
                (case parse_value f (tl u) of
                   None \<Rightarrow> None
                 | Some (v, rest') \<Rightarrow>
                     (let w = skip_ws rest' in
                      if w = [] then None
                      else if hd w = CHR ''}'' then Some ([(k, v)], tl w)
                      else if hd w = CHR '','' then
                        map_option (\<lambda>(kvs, rest''). ((k, v) # kvs, rest'')) (parse_members f (tl w))
                      else None)))))"

definition json_parse :: "string \<Rightarrow> jsval option" where
  "json_parse s =
     (case parse_value (Suc (length s)) s of
        None \<Rightarrow> None
      | Some (v, rest) \<Rightarrow> (if skip_ws rest = [] then Some v else None))"

text \<open>
  \<^verbatim>\<open>JSON.parse(v)\<close> converts \<open>v\<close> to a string first: \<open>undefined\<close> becomes the text
  \<^verbatim>\<open>undefined\<close>, an object \<^verbatim>\<open>[object Object]\<close>; neither is JSON text. The reference
  instance takes a string as it is and treats the other primitive values through their
  text; it is not used on arrays.
\<close>

definition JSON_parse_ref :: "jsval \<Rightarrow> jsval option" where
  "JSON_parse_ref v =
     (case v of
        JStr s \<Rightarrow> json_parse s
      | JUndefined \<Rightarrow> json_parse ''undefined''
      | JNull \<Rightarrow> json_parse ''null''
      | JBool b \<Rightarrow> json_parse (if b then ''true'' else ''false'')
      | JNum n \<Rightarrow> Some (JNum n)
      | JObj kvs \<Rightarrow> json_parse ''[object Object]''
      | JArr xs \<Rightarrow> None)"

section \<open>Inventory: catalog, orders and the chat endpoints\<close>

record product =
  p_botId :: string
  productName :: string
  sku :: string
  availableStock :: real
  unit :: string

datatype order_status = Pending | Confirmed | Rejected

record order_request =
  o_botId :: string
  o_productName :: string
  requestedQty :: real
  userQuery :: string
  o_userId :: "string option"
  o_sessionId :: "string option"
  o_status :: order_status
  o_notes :: "string option"

record session =
  s_id :: string
  s_configId :: string
  s_userId :: string

text \<open>
  The collections the endpoints read and write. Identifiers are taken to be well-formed;
  an order is identified by its position in \<open>orders\<close>.
\<close>

record store =
  configs :: "(string \<times> config) list"
  products :: "product list"
  orders :: "order_request list"
  sessions :: "session list"

datatype thrown =
    ValidationError
  | ThrownTypeError
  | ManagerThrew manager_error

text \<open>
  What a handler hands to \<^verbatim>\<open>next\<close>: one of its \<^verbatim>\<open>ErrorResponse\<close>s, or the exception
  its \<^verbatim>\<open>catch\<close> received.
\<close>

datatype handler_error =
    BadRequest
  | BotNotFound
  | InventoryDisabled
  | SessionNotFound
  | OrderNotFound
  | Thrown thrown

text \<open>\<^verbatim>\<open>ProductInventory.find({ botId })\<close>.\<close>

definition find_products :: "store \<Rightarrow> string \<Rightarrow> product list" where
  "find_products st botId = filter (\<lambda>p. p_botId p = botId) (products st)"

text \<open>
  \<^verbatim>\<open>OrderRequest.create\<close>: the schema trims \<open>productName\<close> and \<open>userId\<close>, requires
  \<open>productName\<close> and \<open>userQuery\<close>, and requires \<open>requestedQty\<close> to be at least 1.
\<close>

definition order_create :: "store \<Rightarrow> order_request \<Rightarrow> thrown + store" where
  "order_create st ord =
     (let doc = ord\<lparr>o_productName := trim (o_productName ord),
                     o_userId := map_option trim (o_userId ord)\<rparr>
      in if o_productName doc = [] \<or> userQuery doc = [] \<or> requestedQty doc < 1
         then Inl ValidationError
         else Inr (st\<lparr>orders := orders st @ [doc]\<rparr>))"

record order_body =
  b_botId :: "string option"
  b_productName :: "string option"
  b_requestedQty :: "real option"
  b_userQuery :: "string option"
  b_userId :: "string option"
  b_sessionId :: "string option"

text \<open>
  \<^verbatim>\<open>POST /order\<close>. \<open>search products needle\<close> stands for
  \<^verbatim>\<open>new FuzzySearch(products, ['productName'], ...).search(needle)\<close>, a library outside
  the repository. The body carries \<open>requestedQty\<close> as a number. The stock is not touched:
  the decrement is commented out in the source.
\<close>

definition post_order ::
  "(product list \<Rightarrow> jsval \<Rightarrow> product list) \<Rightarrow> store \<Rightarrow> order_body \<Rightarrow>
   store \<times> (handler_error + order_request)"
where
  "post_order search st body =
     (if \<not> truthy_str (b_botId body) \<or> \<not> truthy_str (b_productName body)
         \<or> b_requestedQty body = None \<or> b_requestedQty body = Some 0
         \<or> \<not> truthy_str (b_userQuery body)
      then (st, Inl BadRequest)
      else
        (let botId = the (b_botId body);
             name = the (b_productName body);
             qty = the (b_requestedQty body)
         in case map_of (configs st) botId of
              None \<Rightarrow> (st, Inl BotNotFound)
            | Some botConfig \<Rightarrow>
                (if \<not> inventoryEnabled botConfig then (st, Inl InventoryDisabled)
                 else
                   (let searchResults = search (find_products st botId) (JStr name);
                        matchedProduct = (case searchResults of [] \<Rightarrow> None | p # _ \<Rightarrow> Some p)
                    in case order_create st
                              \<lparr>o_botId = botId,
                               o_productName =
                                 (case matchedProduct of Some p \<Rightarrow> productName p | None \<Rightarrow> name),
                               requestedQty = qty,
                               userQuery = the (b_userQuery body),
                               o_userId = b_userId body,
                               o_sessionId = b_sessionId body,
                               o_status = Pending,
                               o_notes = None\<rparr> of
                         Inl e \<Rightarrow> (st, Inl (Thrown e))
                       | Inr st1 \<Rightarrow>
                           (let orderRequest = last (orders st1) in
                            case matchedProduct of
                              None \<Rightarrow> (st1, Inr orderRequest)
                            | Some p \<Rightarrow>
                                (if availableStock p \<ge> qty then
                                   (let confirmed = orderRequest\<lparr>o_status := Confirmed\<rparr> in
                                    (st1\<lparr>orders := butlast (orders st1) @ [confirmed]\<rparr>,
                                     Inr confirmed))
                                 else (st1, Inr orderRequest)))))))"

subsection \<open>Intent resolution\<close>

definition intentDetectionPrompt :: string where
  \<open>intentDetectionPrompt =
     ''\<newline>    You are an inventory management assistant. Analyze the user mess'' @
     ''age and extract the following information:\<newline>    1. Intent: Is the user'' @
     '' asking about product availability (inventory_check) or trying to place an ord'' @
     ''er (order_intent)?\<newline>    2. Product Name: What product is the user aski'' @
     ''ng about?\<newline>    3. Quantity: If the user is trying to place an order, w'' @
     ''hat quantity are they requesting?\<newline>    \<newline>    The user may ask '' @
     ''in Hindi or English. You must be able to understand both languages and extract'' @
     '' the relevant information regardless of the language used.\<newline>    '' @
     ''\<newline>    Examples in Hindi:\<newline>    - "'' @
     [CHR 0xE0, CHR 0xA4, CHR 0x95, CHR 0xE0, CHR 0xA5, CHR 0x8D,
      CHR 0xE0, CHR 0xA4, CHR 0xAF, CHR 0xE0, CHR 0xA4, CHR 0xBE] @
     '' '' @
     [CHR 0xE0, CHR 0xA4, CHR 0x86, CHR 0xE0, CHR 0xA4, CHR 0xAA,
      CHR 0xE0, CHR 0xA4, CHR 0x95, CHR 0xE0, CHR 0xA5, CHR 0x87] @
     '' '' @
     [CHR 0xE0, CHR 0xA4, CHR 0xAA, CHR 0xE0, CHR 0xA4, CHR 0xBE,
      CHR 0xE0, CHR 0xA4, CHR 0xB8] @
     '' '' @
     [CHR 0xE0, CHR 0xA4, CHR 0xB2, CHR 0xE0, CHR 0xA5, CHR 0x88,
      CHR 0xE0, CHR 0xA4, CHR 0xAA, CHR 0xE0, CHR 0xA4, CHR 0x9F,
      CHR 0xE0, CHR 0xA5, CHR 0x89, CHR 0xE0, CHR 0xA4, CHR 0xAA] @
     '' '' @
     [CHR 0xE0, CHR 0xA4, CHR 0xB9, CHR 0xE0, CHR 0xA5, CHR 0x88] @
     ''?" (Intent: inventory_check, Product: laptop)\<newline>    - "'' @
     [CHR 0xE0, CHR 0xA4, CHR 0xAE, CHR 0xE0, CHR 0xA5, CHR 0x81,
      CHR 0xE0, CHR 0xA4, CHR 0x9D, CHR 0xE0, CHR 0xA5, CHR 0x87] @
     '' 2 '' @
     [CHR 0xE0, CHR 0xA4, CHR 0xAE, CHR 0xE0, CHR 0xA5, CHR 0x8B,
      CHR 0xE0, CHR 0xA4, CHR 0xAC, CHR 0xE0, CHR 0xA4, CHR 0xBE,
      CHR 0xE0, CHR 0xA4, CHR 0x87, CHR 0xE0, CHR 0xA4, CHR 0xB2] @
     '' '' @
     [CHR 0xE0, CHR 0xA4, CHR 0xAB, CHR 0xE0, CHR 0xA5, CHR 0x8B,
      CHR 0xE0, CHR 0xA4, CHR 0xA8] @
     '' '' @
     [CHR 0xE0, CHR 0xA4, CHR 0x9A, CHR 0xE0, CHR 0xA4, CHR 0xBE,
      CHR 0xE0, CHR 0xA4, CHR 0xB9, CHR 0xE0, CHR 0xA4, CHR 0xBF,
      CHR 0xE0, CHR 0xA4, CHR 0x8F] @
     ''" (Intent: order_intent, Product: mobile phone, Quantity: 2)\<newline>    '' @
     ''\<newline>    Examples in English:\<newline>    - "Do you have laptops in stoc'' @
     ''k?" (Intent: inventory_check, Product: laptop)\<newline>    - "I want to order'' @
     '' 3 printers" (Intent: order_intent, Product: printer, Quantity: 3)\<newline>  '' @
     ''  \<newline>    Respond in JSON format only with the following structure:'' @
     ''\<newline>    {\<newline>      "intent": "inventory_check" or "order_intent" o'' @
     ''r "other",\<newline>      "productName": "extracted product name",\<newline>  '' @
     ''    "quantity": number or null if not specified\<newline>    }\<newline>    ''\<close>

definition default_intent :: jsval where
  "default_intent =
     JObj [(''intent'', JStr ''other''), (''productName'', JNull), (''quantity'', JNull)]"

text \<open>
  The \<^verbatim>\<open>try { intentData = JSON.parse(intentAnalysis.content) } catch\<close> of the intent
  endpoint: whatever the \<^verbatim>\<open>try\<close> block throws, the default is taken.
\<close>

definition resolveIntent :: "(jsval \<Rightarrow> jsval option) \<Rightarrow> jsval \<Rightarrow> jsval" where
  "resolveIntent JSON_parse intentAnalysis =
     (case ebind (get_prop intentAnalysis ''content'')
                 (\<lambda>c. case JSON_parse c of None \<Rightarrow> Inl SyntaxError | Some v \<Rightarrow> Inr v) of
        Inl x \<Rightarrow> default_intent
      | Inr v \<Rightarrow> v)"

text \<open>
  The test of the message against the range of Devanagari code points, on the UTF-8
  bytes of the message: the code points
  U+0900 to U+097F are the three-byte sequences E0 A4 80 to E0 A5 BF.
\<close>

fun containsHindi :: "string \<Rightarrow> bool" where
  "containsHindi (a # b # c # rest) =
     (((of_char a :: nat) = 0xE0 \<and> ((of_char b :: nat) = 0xA4 \<or> (of_char b :: nat) = 0xA5)
        \<and> 0x80 \<le> (of_char c :: nat) \<and> (of_char c :: nat) \<le> 0xBF)
      \<or> containsHindi (b # c # rest))"
| "containsHindi s = False"

text \<open>
  The reply templates, each in a Hindi and an English wording chosen by \<open>r_isHindi\<close>, with
  the values they interpolate.
\<close>

datatype reply =
    NoProducts
  | NotFound jsval
  | Available product
  | OutOfStock product
  | OrderConfirmed jsval product
  | OnlyAvailable product
  | Help

record intent_response =
  r_intent :: jsval
  r_isHindi :: bool
  r_reply :: reply

record intent_body =
  i_botId :: "string option"
  i_message :: "string option"
  i_userId :: "string option"
  i_sessionId :: "string option"

text \<open>
  What the intent endpoint takes from outside: \<^verbatim>\<open>JSON.parse\<close>, the fuzzy search, the
  outcomes of the HTTP calls to the vendor, \<^verbatim>\<open>Math.random\<close>, the measured latency and
  the identifier of a session it creates. For a quantity that is not a number it also takes
  JavaScript's \<^verbatim>\<open>stock >= quantity\<close>, which converts the quantity and may throw
  (\<open>ge_converted\<close>), and the cast of the persistence layer to the number it stores, \<open>None\<close>
  when the cast fails (\<open>castNumber\<close>).
\<close>

record env =
  JSON_parse :: "jsval \<Rightarrow> jsval option"
  search :: "product list \<Rightarrow> jsval \<Rightarrow> product list"
  ge_converted :: "real \<Rightarrow> jsval \<Rightarrow> js_exn + bool"
  castNumber :: "jsval \<Rightarrow> real option"
  post :: "nat \<Rightarrow> http_outcome"
  rnd :: "nat \<Rightarrow> real"
  latency :: real
  new_session_id :: string

text \<open>The branch \<^verbatim>\<open>intentData.intent === 'inventory_check' && intentData.productName\<close>.\<close>

definition check_branch :: "env \<Rightarrow> store \<Rightarrow> string \<Rightarrow> jsval \<Rightarrow> reply" where
  "check_branch e st botId name =
     (let ps = find_products st botId in
      if ps = [] then NoProducts
      else
        (case search e ps name of
           [] \<Rightarrow> NotFound name
         | p # _ \<Rightarrow> (if availableStock p > 0 then Available p else OutOfStock p)))"

text \<open>\<^verbatim>\<open>product.availableStock >= intentData.quantity\<close>.\<close>

definition stock_covers :: "env \<Rightarrow> real \<Rightarrow> jsval \<Rightarrow> js_exn + bool" where
  "stock_covers e stock quantity =
     (case quantity of
        JNum n \<Rightarrow> Inr (stock \<ge> n)
      | _ \<Rightarrow> ge_converted e stock quantity)"

text \<open>The number stored for \<^verbatim>\<open>requestedQty: intentData.quantity\<close>.\<close>

definition cast_quantity :: "env \<Rightarrow> jsval \<Rightarrow> real option" where
  "cast_quantity e quantity =
     (case quantity of
        JNum n \<Rightarrow> Some n
      | _ \<Rightarrow> castNumber e quantity)"

text \<open>
  The branch \<^verbatim>\<open>intentData.intent === 'order_intent' && intentData.productName &&
  intentData.quantity\<close>. The comparison comes first; when it holds the record is created,
  which fails when the quantity cannot be cast or breaks the schema.
\<close>

definition order_branch ::
  "env \<Rightarrow> store \<Rightarrow> string \<Rightarrow> string \<Rightarrow> string option \<Rightarrow> session \<Rightarrow> jsval \<Rightarrow> jsval \<Rightarrow>
   store \<times> (handler_error + reply)"
where
  "order_branch e st botId userMessage userId sess name quantity =
     (let ps = find_products st botId in
      if ps = [] then (st, Inr NoProducts)
      else
        (case search e ps name of
           [] \<Rightarrow> (st, Inr (NotFound name))
         | p # _ \<Rightarrow>
             (case stock_covers e (availableStock p) quantity of
                Inl x \<Rightarrow> (st, Inl (Thrown ThrownTypeError))
              | Inr True \<Rightarrow>
                  (case cast_quantity e quantity of
                     None \<Rightarrow> (st, Inl (Thrown ValidationError))
                   | Some n \<Rightarrow>
                       (case order_create st
                               \<lparr>o_botId = botId,
                                o_productName = productName p,
                                requestedQty = n,
                                userQuery = userMessage,
                                o_userId = userId,
                                o_sessionId = Some (s_id sess),
                                o_status = Confirmed,
                                o_notes = None\<rparr> of
                          Inl x \<Rightarrow> (st, Inl (Thrown x))
                        | Inr st1 \<Rightarrow> (st1, Inr (OrderConfirmed quantity p))))
              | Inr False \<Rightarrow>
                  (if availableStock p > 0 then (st, Inr (OnlyAvailable p))
                   else (st, Inr (OutOfStock p))))))"

text \<open>The handler from \<^verbatim>\<open>let response = ''\<close> on, for the resolved \<open>intentData\<close>.\<close>

definition process_intent ::
  "env \<Rightarrow> store \<Rightarrow> string \<Rightarrow> string \<Rightarrow> string option \<Rightarrow> session \<Rightarrow> jsval \<Rightarrow>
   store \<times> (handler_error + intent_response)"
where
  "process_intent e st botId userMessage userId sess intentData =
     (case get_prop intentData ''intent'' of
        Inl x \<Rightarrow> (st, Inl (Thrown ThrownTypeError))
      | Inr intent \<Rightarrow>
          (let name = opt_prop intentData ''productName'';
               quantity = opt_prop intentData ''quantity'';
               respond = (\<lambda>r. Inr \<lparr>r_intent = intentData, r_isHindi = containsHindi userMessage,
                                    r_reply = r\<rparr>)
           in if intent = JStr ''inventory_check'' \<and> truthy name
              then (st, respond (check_branch e st botId name))
              else if intent = JStr ''order_intent'' \<and> truthy name \<and> truthy quantity
              then
                (case order_branch e st botId userMessage userId sess name quantity of
                   (st1, Inl err) \<Rightarrow> (st1, Inl err)
                 | (st1, Inr r) \<Rightarrow> (st1, respond r))
              else (st, respond Help)))"

text \<open>\<^verbatim>\<open>POST /intent\<close>.\<close>

definition post_intent ::
  "env \<Rightarrow> store \<Rightarrow> intent_body \<Rightarrow> store \<times> (handler_error + intent_response)"
where
  "post_intent e st body =
     (if \<not> truthy_str (i_botId body) \<or> \<not> truthy_str (i_message body)
         \<or> \<not> truthy_str (i_userId body)
      then (st, Inl BadRequest)
      else
        (let botId = the (i_botId body);
             userMessage = the (i_message body)
         in case map_of (configs st) botId of
              None \<Rightarrow> (st, Inl BotNotFound)
            | Some botConfig \<Rightarrow>
                (if \<not> inventoryEnabled botConfig then (st, Inl InventoryDisabled)
                 else
                   (let found =
                          (if truthy_str (i_sessionId body)
                           then
                             (case find (\<lambda>s. s_id s = the (i_sessionId body)) (sessions st) of
                                None \<Rightarrow> None
                              | Some s \<Rightarrow> Some (st, s))
                           else
                             (let s = \<lparr>s_id = new_session_id e, s_configId = botId,
                                       s_userId = the (i_userId body)\<rparr>
                              in Some (st\<lparr>sessions := sessions st @ [s]\<rparr>, s)))
                    in case found of
                         None \<Rightarrow> (st, Inl SessionNotFound)
                       | Some (st1, sess) \<Rightarrow>
                           (case aiClientManager_generateResponse (post e) (rnd e) (latency e)
                                   (Some \<lparr>ai = None,
                                          system_prompt = Some intentDetectionPrompt,
                                          inventoryEnabled = False\<rparr>) of
                              Inl x \<Rightarrow> (st1, Inl (Thrown (ManagerThrew x)))
                            | Inr intentAnalysis \<Rightarrow>
                                process_intent e st1 botId userMessage (i_userId body) sess
                                  (resolveIntent (JSON_parse e) intentAnalysis))))))"

subsection \<open>The administrator's status update\<close>





section \<open>Example data\<close>

text \<open>
  A catalog with one product, a search that returns the products it is given, and a vendor
  that answers the first call with a well-formed intent object as its reply text.
\<close>

definition demo_product :: product where
  "demo_product =
     \<lparr>p_botId = ''bot1'', productName = ''Printer'', sku = ''PR-1'',
      availableStock = 10, unit = ''pcs''\<rparr>"

definition demo_store :: store where
  "demo_store =
     \<lparr>configs = [(''bot1'', \<lparr>ai = None, system_prompt = None, inventoryEnabled = True\<rparr>)],
      products = [demo_product],
      orders = [],
      sessions = []\<rparr>"

definition demo_search :: "product list \<Rightarrow> jsval \<Rightarrow> product list" where
  "demo_search ps needle = ps"

definition demo_order_body :: "real \<Rightarrow> order_body" where
  "demo_order_body qty =
     \<lparr>b_botId = Some ''bot1'', b_productName = Some ''printer'', b_requestedQty = Some qty,
      b_userQuery = Some ''I want to order printers'', b_userId = Some ''u1'',
      b_sessionId = None\<rparr>"

definition demo_order :: "real \<Rightarrow> order_status \<Rightarrow> order_request" where
  "demo_order qty s =
     \<lparr>o_botId = ''bot1'', o_productName = ''Printer'', requestedQty = qty,
      userQuery = ''I want to order printers'', o_userId = Some ''u1'', o_sessionId = None,
      o_status = s, o_notes = None\<rparr>"

definition demo_intent_text :: string where
  \<open>demo_intent_text = ''{"intent":"order_intent","productName":"printer","quantity":3}''\<close>

definition demo_vendor_answer :: "string \<Rightarrow> jsval" where
  "demo_vendor_answer reply_text =
     JObj [(''choices'',
            JArr [JObj [(''message'',
                         JObj [(''role'', JStr ''assistant''),
                               (''content'', JStr reply_text)])]]),
           (''model'', JStr ''mistral-small''),
           (''usage'', JObj [(''total_tokens'', JNum 42)])]"

text \<open>
  Instances of \<open>ge_converted\<close> and \<open>castNumber\<close> for concrete inputs: a string of decimal
  digits converts to the number it writes, every other value to no number.
\<close>

definition digits_number :: "jsval \<Rightarrow> real option" where
  "digits_number v =
     (case v of
        JStr s \<Rightarrow> (if s \<noteq> [] \<and> list_all is_digit s then Some (real (digits_val s)) else None)
      | _ \<Rightarrow> None)"

definition demo_ge :: "real \<Rightarrow> jsval \<Rightarrow> js_exn + bool" where
  "demo_ge stock v = Inr (case digits_number v of None \<Rightarrow> False | Some n \<Rightarrow> stock \<ge> n)"

definition demo_env :: env where
  "demo_env =
     \<lparr>JSON_parse = JSON_parse_ref, search = demo_search,
      ge_converted = demo_ge, castNumber = digits_number,
      post = (\<lambda>n. Responded (demo_vendor_answer demo_intent_text)), rnd = (\<lambda>k. 0),
      latency = 120, new_session_id = ''s1''\<rparr>"

definition demo_intent_body :: intent_body where
  "demo_intent_body =
     \<lparr>i_botId = Some ''bot1'', i_message = Some ''I want to order 3 printers'',
      i_userId = Some ''u1'', i_sessionId = None\<rparr>"

definition demo_session :: session where
  "demo_session = \<lparr>s_id = ''s1'', s_configId = ''bot1'', s_userId = ''u1''\<rparr>"

definition demo_intent :: "real \<Rightarrow> jsval" where
  "demo_intent qty =
     JObj [(''intent'', JStr ''order_intent''), (''productName'', JStr ''printer''),
           (''quantity'', JNum qty)]"

text \<open>The same intent with the quantity written as a string.\<close>

definition demo_intent_str :: "string \<Rightarrow> jsval" where
  "demo_intent_str qty =
     JObj [(''intent'', JStr ''order_intent''), (''productName'', JStr ''printer''),
           (''quantity'', JStr qty)]"

section \<open>Properties\<close>

subsection \<open>Provider selection\<close>

lemma default_client_eq: "default_client = Registered MistralClient"
  by (simp add: default_client_def clients_get_def clients_def defaultProvider_def)

lemma toLowerCase_OpenAI: "toLowerCase ''OpenAI'' = ''openai''"
  by (simp add: toLowerCase_def lower_char_def)

text \<open>
  C10, as stated: the default client is returned when the configuration names no provider
  or a name that is not a key of the registry, and the registered client otherwise. The name
  \<open>OpenAI\<close> is not a key of the registry, yet the OpenAI client is selected, because the
  name is lower-cased before the lookup.
\<close>

theorem getClient_exact_match_counterexample:
  "clients ''OpenAI'' = None \<and>
   getClient (Some \<lparr>ai = Some \<lparr>provider = Some ''OpenAI'', model = None\<rparr>, system_prompt = None, inventoryEnabled = False\<rparr>)
     = Registered OpenAIClient \<and>
   Registered OpenAIClient \<noteq> default_client"
  by (simp add: getClient_def toLowerCase_OpenAI clients_get_def clients_def default_client_eq)

text \<open>
  C10, amended: \<open>getClient\<close> is a function of the configuration and the fixed registry; it
  returns the default (Mistral) client when the configuration has no provider name or when
  the lower-cased name is not registered, and the client registered under the lower-cased
  name otherwise. Names that lower-case to a property inherited from the object prototype
  are left aside.
\<close>

theorem getClient_lowercase_match:
  assumes "\<forall>p. provider_name cfg = Some p \<longrightarrow>
             toLowerCase p \<noteq> ''constructor'' \<and> toLowerCase p \<noteq> ''__proto__''"
  shows "getClient cfg =
           (case provider_name cfg of
              None \<Rightarrow> Registered MistralClient
            | Some p \<Rightarrow>
                (case clients (toLowerCase p) of
                   None \<Rightarrow> Registered MistralClient
                 | Some c \<Rightarrow> Registered c))"
  using assms
  by (auto simp: getClient_def provider_name_def default_client_eq clients_get_def Let_def
           split: option.splits)

theorem getClient_lowercase_match_witness:
  "getClient (Some \<lparr>ai = Some \<lparr>provider = Some ''OpenAI'', model = None\<rparr>, system_prompt = None, inventoryEnabled = False\<rparr>)
     = Registered OpenAIClient \<and>
   getClient (Some \<lparr>ai = Some \<lparr>provider = Some ''cohere'', model = None\<rparr>, system_prompt = None, inventoryEnabled = False\<rparr>)
     = Registered MistralClient \<and>
   getClient None = Registered MistralClient"
  using getClient_lowercase_match
          [of "Some \<lparr>ai = Some \<lparr>provider = Some ''OpenAI'', model = None\<rparr>, system_prompt = None, inventoryEnabled = False\<rparr>"]
        getClient_lowercase_match
          [of "Some \<lparr>ai = Some \<lparr>provider = Some ''cohere'', model = None\<rparr>, system_prompt = None, inventoryEnabled = False\<rparr>"]
        getClient_lowercase_match [of None]
  by (simp add: provider_name_def toLowerCase_def lower_char_def clients_def)

subsection \<open>The retry loop\<close>

lemma retry_loop_0:
  "retry_loop sr dl outcomes rand 0 0 [] =
     (case outcomes 0 of
        Responded d \<Rightarrow> \<lparr>outcome = Inr (Some d), calls = 1, waits = []\<rparr>
      | Failed e \<Rightarrow>
          (case sr e of
             Inl x \<Rightarrow> \<lparr>outcome = Inl x, calls = 1, waits = []\<rparr>
           | Inr b \<Rightarrow>
               if b then retry_loop sr dl outcomes rand (Suc 0) (Suc 0) [dl (Suc 0) (rand 0)]
               else \<lparr>outcome = Inl (AxiosError e), calls = 1, waits = []\<rparr>))"
  by (subst retry_loop.simps)
     (simp add: maxRetries_def split: http_outcome.splits sum.splits bool.splits)

lemma retry_loop_1:
  "retry_loop sr dl outcomes rand (Suc 0) (Suc 0) [w] =
     (case outcomes (Suc 0) of
        Responded d \<Rightarrow> \<lparr>outcome = Inr (Some d), calls = 2, waits = [w]\<rparr>
      | Failed e \<Rightarrow>
          (case sr e of
             Inl x \<Rightarrow> \<lparr>outcome = Inl x, calls = 2, waits = [w]\<rparr>
           | Inr b \<Rightarrow>
               if b then retry_loop sr dl outcomes rand (Suc (Suc 0)) (Suc (Suc 0))
                           [w, dl (Suc (Suc 0)) (rand (Suc 0))]
               else \<lparr>outcome = Inl (AxiosError e), calls = 2, waits = [w]\<rparr>))"
  by (subst retry_loop.simps)
     (simp add: maxRetries_def numeral_2_eq_2 split: http_outcome.splits sum.splits bool.splits)

lemma retry_loop_2:
  "retry_loop sr dl outcomes rand (Suc (Suc 0)) (Suc (Suc 0)) [w, w'] =
     (case outcomes (Suc (Suc 0)) of
        Responded d \<Rightarrow> \<lparr>outcome = Inr (Some d), calls = 3, waits = [w, w']\<rparr>
      | Failed e \<Rightarrow>
          (case sr e of
             Inl x \<Rightarrow> \<lparr>outcome = Inl x, calls = 3, waits = [w, w']\<rparr>
           | Inr b \<Rightarrow> \<lparr>outcome = Inl (AxiosError e), calls = 3, waits = [w, w']\<rparr>))"
  by (subst retry_loop.simps)
     (simp add: maxRetries_def numeral_3_eq_3 split: http_outcome.splits sum.splits bool.splits)

lemmas retry_loop_unfold = retry_loop_0 retry_loop_1 retry_loop_2

text \<open>
  Whatever the outcomes of the HTTP calls, the loop makes at most three of them, waits once
  between two calls, and the wait number \<open>k\<close> (from 0) is the delay for the retry counter
  \<open>k + 1\<close>.
\<close>

lemma retry_loop_shape:
  "calls (retry_loop sr dl outcomes rand 0 0 []) \<le> maxRetries \<and>
   calls (retry_loop sr dl outcomes rand 0 0 [])
     = Suc (length (waits (retry_loop sr dl outcomes rand 0 0 []))) \<and>
   waits (retry_loop sr dl outcomes rand 0 0 []) =
     map (\<lambda>k. dl (Suc k) (rand k)) [0..<length (waits (retry_loop sr dl outcomes rand 0 0 []))]"
  by (simp add: retry_loop_unfold maxRetries_def
           split: http_outcome.splits sum.splits bool.splits)

text \<open>
  With a jitter in \<open>[0, 1)\<close> the two delays MistralClient can wait are below the cap of
  10000 ms that OpenAIClient applies, so both clients wait
  \<open>min (2 ^ retries * 1000 + jitter, 10000)\<close>.
\<close>

lemma delay_bounds:
  assumes "0 \<le> x" "x < 1" "k = 1 \<or> k = 2"
  shows "mistral_delay k x = min (2 ^ k * 1000 + x * 1000) 10000"
    and "openai_delay k x = min (2 ^ k * 1000 + x * 1000) 10000"
    and "2 ^ k * 1000 \<le> mistral_delay k x" and "mistral_delay k x \<le> 10000"
  using assms by (auto simp: mistral_delay_def openai_delay_def min_def)

lemma mistral_network_error_throws:
  "response e = None \<Longrightarrow> mistral_shouldRetryRequest e = Inl TypeError"
  by (simp add: mistral_shouldRetryRequest_def has_status_def mistral_model_not_found_def ebind_def)

lemma mistral_retryable_status:
  assumes "response e = Some r" "status r = 429 \<or> status r \<ge> 500"
    and "\<not> truthy (data r) \<or> get_prop (data r) ''error'' = Inr JUndefined"
  shows "mistral_shouldRetryRequest e = Inr True"
  using assms
  by (auto simp: mistral_shouldRetryRequest_def has_status_def status_ge_def
                 mistral_model_not_found_def ebind_def)

text \<open>
  MistralClient does retry a 429 or a 5xx answer whose body has no \<open>error\<close> field: three
  calls when all fail, with the two delays in between.
\<close>

lemma mistral_retries_status:
  assumes "\<And>n. outcomes n = Failed e" "response e = Some r" "status r = 429 \<or> status r \<ge> 500"
    and "\<not> truthy (data r) \<or> get_prop (data r) ''error'' = Inr JUndefined"
  shows "http_calls (mistral_generateResponse outcomes rand lat) = 3"
    and "delays (mistral_generateResponse outcomes rand lat)
           = [mistral_delay 1 (rand 0), mistral_delay 2 (rand 1)]"
    and "returned (mistral_generateResponse outcomes rand lat) = Inl (classify (AxiosError e))"
  using mistral_retryable_status[OF assms(2,3,4)]
  by (simp_all add: mistral_generateResponse_def retry_loop_unfold assms(1) ebind_def numeral_2_eq_2)

text \<open>OpenAIClient, the sibling, retries a connection reset.\<close>

lemma openai_retries_econnreset:
  assumes "\<And>n. outcomes n = Failed e" "response e = None" "code e = Some ''ECONNRESET''"
  shows "http_calls (openai_generateResponse outcomes rand) = 3"
    and "delays (openai_generateResponse outcomes rand)
           = [openai_delay 1 (rand 0), openai_delay 2 (rand 1)]"
  by (simp_all add: openai_generateResponse_def retry_loop_unfold assms openai_shouldRetryRequest_def
                    ebind_def numeral_2_eq_2)

text \<open>
  C2: a connection reset (a rejection without \<open>response\<close>, code \<open>ECONNRESET\<close>) on
  MistralClient. The retry test throws a \<open>TypeError\<close> while reading
  \<^verbatim>\<open>error.response.data\<close>: one HTTP call, no delay, the generic failure.
\<close>

theorem mistral_econnreset_not_retried:
  "http_calls (mistral_generateResponse
      (\<lambda>n. Failed \<lparr>response = None, request = True, code = Some ''ECONNRESET'',
                    message = ''read ECONNRESET''\<rparr>) rand lat) = 1 \<and>
   delays (mistral_generateResponse
      (\<lambda>n. Failed \<lparr>response = None, request = True, code = Some ''ECONNRESET'',
                    message = ''read ECONNRESET''\<rparr>) rand lat) = [] \<and>
   returned (mistral_generateResponse
      (\<lambda>n. Failed \<lparr>response = None, request = True, code = Some ''ECONNRESET'',
                    message = ''read ECONNRESET''\<rparr>) rand lat) = Inl (Failure TypeError)"
  by (simp add: mistral_generateResponse_def retry_loop_0 mistral_network_error_throws
                ebind_def classify_def)

text \<open>
  When OpenAIClient's model test throws: the body of the answer has an \<open>error\<close> with a
  truthy \<open>message\<close> that is neither a string nor an array.
\<close>

lemma openai_model_message_throws:
  "openai_model_message r = Inl x \<longleftrightarrow>
     x = TypeError \<and> truthy (data r) \<and>
     (\<exists>er m. get_prop (data r) ''error'' = Inr er \<and> truthy er \<and>
             get_prop er ''message'' = Inr m \<and> truthy m \<and>
             (\<forall>s. m \<noteq> JStr s) \<and> (\<forall>xs. m \<noteq> JArr xs))"
proof (cases "truthy (data r)")
  case False
  then show ?thesis by (simp add: openai_model_message_def)
next
  case True
  then obtain er where er: "get_prop (data r) ''error'' = Inr er"
    by (cases "data r") auto
  show ?thesis
  proof (cases "truthy er")
    case False
    with True er show ?thesis by (simp add: openai_model_message_def ebind_def)
  next
    case t: True
    then obtain m where m: "get_prop er ''message'' = Inr m"
      by (cases er) auto
    from True er t m show ?thesis
      by (cases m) (auto simp: openai_model_message_def ebind_def)
  qed
qed

lemma openai_model_message_Inl: "openai_model_message r = Inl x \<Longrightarrow> x = TypeError"
  using openai_model_message_throws[of r x] by blast

lemma openai_model_message_string:
  assumes "get_prop (data r) ''error'' = Inr er" "get_prop er ''message'' = Inr (JStr s)"
  shows "\<exists>c. openai_model_message r = Inr c"
  using assms by (auto simp: openai_model_message_def ebind_def)

text \<open>
  C3: when the first HTTP call is answered with status 401, 400 or 404, both clients make
  that one call, wait for nothing and throw: the authentication error for 401, the generic
  failure otherwise. The generic failure carries the rejection, except that OpenAIClient on
  a 404 whose model test throws carries that \<open>TypeError\<close>.
\<close>

theorem no_retry_on_client_errors:
  assumes "outcomes 0 = Failed e" and "response e = Some r"
    and "status r = 401 \<or> status r = 400 \<or> status r = 404"
  shows "http_calls (mistral_generateResponse outcomes rand lat) = 1 \<and>
         delays (mistral_generateResponse outcomes rand lat) = [] \<and>
         returned (mistral_generateResponse outcomes rand lat)
           = Inl (if status r = 401 then AuthenticationFailed else Failure (AxiosError e)) \<and>
         http_calls (openai_generateResponse outcomes rand) = 1 \<and>
         delays (openai_generateResponse outcomes rand) = [] \<and>
         returned (openai_generateResponse outcomes rand)
           = Inl (if status r = 401 then AuthenticationFailed
                  else if status r = 404 \<and> openai_model_message r = Inl TypeError
                  then Failure TypeError
                  else Failure (AxiosError e))"
proof -
  have m: "mistral_shouldRetryRequest e = Inr False"
    using assms(2,3) by (auto simp: mistral_shouldRetryRequest_def has_status_def ebind_def)
  have c: "classify (AxiosError e)
             = (if status r = 401 then AuthenticationFailed else Failure (AxiosError e))"
    using assms(2,3) by (auto simp: classify_def)
  have mistral: "http_calls (mistral_generateResponse outcomes rand lat) = 1 \<and>
         delays (mistral_generateResponse outcomes rand lat) = [] \<and>
         returned (mistral_generateResponse outcomes rand lat)
           = Inl (if status r = 401 then AuthenticationFailed else Failure (AxiosError e))"
    by (simp add: mistral_generateResponse_def retry_loop_0 assms(1) m ebind_def c)
  have openai: "http_calls (openai_generateResponse outcomes rand) = 1 \<and>
         delays (openai_generateResponse outcomes rand) = [] \<and>
         returned (openai_generateResponse outcomes rand)
           = Inl (if status r = 401 then AuthenticationFailed
                  else if status r = 404 \<and> openai_model_message r = Inl TypeError
                  then Failure TypeError
                  else Failure (AxiosError e))"
  proof (cases "status r = 404 \<and> openai_model_message r = Inl TypeError")
    case True
    then have "openai_shouldRetryRequest e = Inl TypeError"
      using assms(2) by (simp add: openai_shouldRetryRequest_def ebind_def)
    with True show ?thesis
      by (simp add: openai_generateResponse_def retry_loop_0 assms(1) ebind_def classify_def)
  next
    case False
    have "openai_shouldRetryRequest e = Inr False"
    proof (cases "status r = 404")
      case True
      with False have "openai_model_message r \<noteq> Inl TypeError" by simp
      then obtain b where "openai_model_message r = Inr b"
        using openai_model_message_Inl[of r] by (cases "openai_model_message r") blast+
      with True assms(2) show ?thesis
        by (simp add: openai_shouldRetryRequest_def ebind_def)
    next
      case False
      with assms(2,3) show ?thesis by (auto simp: openai_shouldRetryRequest_def)
    qed
    with False show ?thesis
      by (simp add: openai_generateResponse_def retry_loop_0 assms(1) ebind_def c)
  qed
  from mistral openai show ?thesis by simp
qed

theorem no_retry_on_client_errors_witness:
  "http_calls (mistral_generateResponse
      (\<lambda>n. Failed \<lparr>response = Some \<lparr>status = 404,
                      data = JObj [(''error'', JObj [(''message'', JStr ''The model does not exist'')])]\<rparr>,
                    request = True, code = None,
                    message = ''Request failed with status code 404''\<rparr>) (\<lambda>k. 0) 0) = 1 \<and>
   delays (mistral_generateResponse
      (\<lambda>n. Failed \<lparr>response = Some \<lparr>status = 404,
                      data = JObj [(''error'', JObj [(''message'', JStr ''The model does not exist'')])]\<rparr>,
                    request = True, code = None,
                    message = ''Request failed with status code 404''\<rparr>) (\<lambda>k. 0) 0) = [] \<and>
   http_calls (openai_generateResponse
      (\<lambda>n. Failed \<lparr>response = Some \<lparr>status = 404,
                      data = JObj [(''error'', JObj [(''message'', JStr ''The model does not exist'')])]\<rparr>,
                    request = True, code = None,
                    message = ''Request failed with status code 404''\<rparr>) (\<lambda>k. 0)) = 1 \<and>
   returned (openai_generateResponse
      (\<lambda>n. Failed \<lparr>response = Some \<lparr>status = 404,
                      data = JObj [(''error'', JObj [(''message'', JStr ''The model does not exist'')])]\<rparr>,
                    request = True, code = None,
                    message = ''Request failed with status code 404''\<rparr>) (\<lambda>k. 0))
     = Inl (Failure (AxiosError
         \<lparr>response = Some \<lparr>status = 404,
                      data = JObj [(''error'', JObj [(''message'', JStr ''The model does not exist'')])]\<rparr>,
          request = True, code = None, message = ''Request failed with status code 404''\<rparr>))"
proof -
  let ?r = "\<lparr>status = 404,
             data = JObj [(''error'', JObj [(''message'', JStr ''The model does not exist'')])]\<rparr>"
  let ?e = "\<lparr>response = Some ?r, request = True, code = None,
             message = ''Request failed with status code 404''\<rparr>"
  have m: "openai_model_message ?r \<noteq> Inl TypeError"
    by (simp add: openai_model_message_def ebind_def)
  from no_retry_on_client_errors [of "\<lambda>n. Failed ?e" ?e ?r "\<lambda>k. 0" 0] m
  show ?thesis by simp
qed

subsection \<open>The outbound message list\<close>

lemma inventory_instruction_nonempty: "inventory_instruction \<noteq> []"
  by (simp add: inventory_instruction_def)

text \<open>
  C7, as stated: the system message is taken from the configured prompt when there is one.
  With a configured prompt and inventory access (which the manager always sets) the system
  message is the configured prompt followed by the inventory instruction.
\<close>

theorem system_prompt_first_match_counterexample:
  "content (hd (generate_messages
      \<lparr>opt_system_prompt = Some ''Be brief.'', userLanguage = None, inventoryAccess = True\<rparr> []))
     \<noteq> ''Be brief.''"
  by (simp add: generate_messages_def systemPrompt_def inventory_instruction_nonempty)

text \<open>The request of the streaming variant carries the mapped history only.\<close>

lemma stream_messages_no_system:
  "length (stream_messages msgs) = length msgs \<and>
   (\<forall>m \<in> set (stream_messages msgs). role m = ''assistant'' \<or> role m = ''user'')"
  by (auto simp: stream_messages_def vendor_message_def)

text \<open>
  C7, amended: \<^verbatim>\<open>generateResponse\<close> sends one system message followed by the history in
  order, role \<open>bot\<close> mapped to \<open>assistant\<close> and every other role to \<open>user\<close>. The system
  message is the configured prompt if there is one, else the language prompt if a user
  language is given, else the default prompt, and the inventory instruction is appended to
  it when inventory access is set.
\<close>

theorem generate_messages_shape:
  "length (generate_messages opts msgs) = Suc (length msgs) \<and>
   role (hd (generate_messages opts msgs)) = ''system'' \<and>
   content (hd (generate_messages opts msgs)) =
     (if truthy_str (opt_system_prompt opts) then the (opt_system_prompt opts)
      else if truthy_str (userLanguage opts) then language_prompt
      else default_prompt)
     @ (if inventoryAccess opts then inventory_instruction else []) \<and>
   (\<forall>i < length msgs.
      content (generate_messages opts msgs ! Suc i) = content (msgs ! i) \<and>
      role (generate_messages opts msgs ! Suc i)
        = (if role (msgs ! i) = ''bot'' then ''assistant'' else ''user''))"
  by (simp add: generate_messages_def systemPrompt_def vendor_message_def Let_def)

theorem generate_messages_shape_witness:
  "generate_messages
     \<lparr>opt_system_prompt = None, userLanguage = None, inventoryAccess = False\<rparr>
     [\<lparr>role = ''user'', content = ''hi''\<rparr>, \<lparr>role = ''bot'', content = ''hello''\<rparr>]
   = [\<lparr>role = ''system'', content = ''You are a helpful AI assistant.''\<rparr>,
      \<lparr>role = ''user'', content = ''hi''\<rparr>, \<lparr>role = ''assistant'', content = ''hello''\<rparr>]"
proof -
  let ?o = "\<lparr>opt_system_prompt = None, userLanguage = None, inventoryAccess = False\<rparr>"
  let ?m = "[\<lparr>role = ''user'', content = ''hi''\<rparr>, \<lparr>role = ''bot'', content = ''hello''\<rparr>]"
  let ?g = "generate_messages ?o ?m"
  from generate_messages_shape [of ?o ?m]
  have l: "length ?g = 3" and h: "role (hd ?g) = ''system''"
    and c: "content (hd ?g) = ''You are a helpful AI assistant.''"
    and i: "\<forall>i < 2. content (?g ! Suc i) = content (?m ! i) \<and>
              role (?g ! Suc i) = (if role (?m ! i) = ''bot'' then ''assistant'' else ''user'')"
    by (simp_all add: default_prompt_def)
  from i have i0: "content (?g ! 1) = ''hi''" "role (?g ! 1) = ''user''"
    and i1: "content (?g ! 2) = ''hello''" "role (?g ! 2) = ''assistant''"
    by (auto simp: numeral_2_eq_2)
  obtain a b c' where g: "?g = [a, b, c']"
    using l by (auto simp: length_Suc_conv numeral_3_eq_3)
  with h c i0 i1 show ?thesis by (auto simp: numeral_2_eq_2)
qed

subsection \<open>Lines and chunks\<close>

lemma split_nl_nonempty: "split_nl s \<noteq> []"
  by (induction s) (auto split: list.splits)

lemma split_nl_line:
  "CHR 0x0A \<notin> set l \<Longrightarrow> split_nl (l @ CHR 0x0A # rest) = l # split_nl rest"
  by (induction l) (auto split: list.splits)

lemma split_nl_unlines:
  "\<forall>l \<in> set ls. CHR 0x0A \<notin> set l \<Longrightarrow> split_nl (unlines_nl ls) = ls @ [[]]"
  by (induction ls) (auto simp: unlines_nl_def split_nl_line)

lemma trim_Nil: "trim [] = []"
  by (simp add: trim_def)

lemma chunk_lines_unlines:
  assumes "\<forall>l \<in> set ls. CHR 0x0A \<notin> set l"
  shows "chunk_lines (unlines_nl ls) = filter (\<lambda>line. trim line \<noteq> []) ls"
  using assms by (simp add: chunk_lines_def split_nl_unlines trim_Nil)

text \<open>An ASCII character that is not white space is never dropped by \<open>trim\<close>.\<close>

lemma is_space2_high:
  "is_space2 a b \<Longrightarrow> (of_char a :: nat) \<ge> 128 \<and> (of_char b :: nat) \<ge> 128"
  by (simp add: is_space2_def)

lemma is_space3_high:
  "is_space3 a b c \<Longrightarrow>
   (of_char a :: nat) \<ge> 128 \<and> (of_char b :: nat) \<ge> 128 \<and> (of_char c :: nat) \<ge> 128"
  unfolding is_space3_def Let_def by linarith

lemma trim_start_keeps:
  "x \<in> set s \<Longrightarrow> (of_char x :: nat) < 128 \<Longrightarrow> \<not> is_space x \<Longrightarrow> x \<in> set (trim_start s)"
proof (induction s rule: trim_start.induct)
  case (1 a b c rest)
  show ?case
  proof (cases "is_space a")
    case True
    then have "x \<noteq> a" using "1.prems" by auto
    then have "x \<in> set (b # c # rest)" using "1.prems" by auto
    then show ?thesis using True "1.IH"(1) "1.prems" by simp
  next
    case na: False
    show ?thesis
    proof (cases "is_space2 a b")
      case True
      then have "x \<noteq> a" "x \<noteq> b" using "1.prems" is_space2_high[of a b] by auto
      then have "x \<in> set (c # rest)" using "1.prems" by auto
      then show ?thesis using na True "1.IH"(2) "1.prems" by simp
    next
      case n2: False
      show ?thesis
      proof (cases "is_space3 a b c")
        case True
        then have "x \<noteq> a" "x \<noteq> b" "x \<noteq> c" using "1.prems" is_space3_high[of a b c] by auto
        then have "x \<in> set rest" using "1.prems" by auto
        then show ?thesis using na n2 True "1.IH"(3) "1.prems" by simp
      next
        case False
        then show ?thesis using na n2 "1.prems" by simp
      qed
    qed
  qed
next
  case (2 a b)
  show ?case
  proof (cases "is_space a")
    case True
    then have "x \<noteq> a" using "2.prems" by auto
    then have "x \<in> set [b]" using "2.prems" by auto
    then show ?thesis using True "2.IH" "2.prems" by simp
  next
    case False
    then show ?thesis using "2.prems" is_space2_high[of a b] by (cases "is_space2 a b") auto
  qed
next
  case (3 a)
  then show ?case by auto
next
  case 4
  then show ?case by simp
qed

lemma trim_end_rev_keeps:
  "x \<in> set s \<Longrightarrow> (of_char x :: nat) < 128 \<Longrightarrow> \<not> is_space x \<Longrightarrow> x \<in> set (trim_end_rev s)"
proof (induction s rule: trim_end_rev.induct)
  case (1 c b a rest)
  show ?case
  proof (cases "is_space c")
    case True
    then have "x \<noteq> c" using "1.prems" by auto
    then have "x \<in> set (b # a # rest)" using "1.prems" by auto
    then show ?thesis using True "1.IH"(1) "1.prems" by simp
  next
    case na: False
    show ?thesis
    proof (cases "is_space2 b c")
      case True
      then have "x \<noteq> c" "x \<noteq> b" using "1.prems" is_space2_high[of b c] by auto
      then have "x \<in> set (a # rest)" using "1.prems" by auto
      then show ?thesis using na True "1.IH"(2) "1.prems" by simp
    next
      case n2: False
      show ?thesis
      proof (cases "is_space3 a b c")
        case True
        then have "x \<noteq> a" "x \<noteq> b" "x \<noteq> c" using "1.prems" is_space3_high[of a b c] by auto
        then have "x \<in> set rest" using "1.prems" by auto
        then show ?thesis using na n2 True "1.IH"(3) "1.prems" by simp
      next
        case False
        then show ?thesis using na n2 "1.prems" by simp
      qed
    qed
  qed
next
  case (2 b a)
  show ?case
  proof (cases "is_space b")
    case True
    then have "x \<noteq> b" using "2.prems" by auto
    then have "x \<in> set [a]" using "2.prems" by auto
    then show ?thesis using True "2.IH" "2.prems" by simp
  next
    case False
    then show ?thesis using "2.prems" is_space2_high[of a b] by (cases "is_space2 a b") auto
  qed
next
  case (3 a)
  then show ?case by auto
next
  case 4
  then show ?case by simp
qed

lemma trim_nonempty:
  assumes "x \<in> set s" "(of_char x :: nat) < 128" "\<not> is_space x"
  shows "trim s \<noteq> []"
proof -
  have "x \<in> set (rev (trim_start s))"
    using trim_start_keeps[OF assms] by simp
  from trim_end_rev_keeps[OF this assms(2,3)] show ?thesis
    by (auto simp: trim_def)
qed

lemma trim_start_space: "is_space a \<Longrightarrow> trim_start (a # s) = trim_start s"
proof (cases s)
  case Nil
  then show "is_space a \<Longrightarrow> trim_start (a # s) = trim_start s" by simp
next
  case (Cons b t)
  then show "is_space a \<Longrightarrow> trim_start (a # s) = trim_start s" by (cases t) simp_all
qed

lemma trim_start_suffix: "\<exists>u. s = u @ trim_start s"
proof (induction s rule: trim_start.induct)
  case (1 a b c rest)
  consider "is_space a" | "\<not> is_space a" "is_space2 a b"
    | "\<not> is_space a" "\<not> is_space2 a b" "is_space3 a b c"
    | "\<not> is_space a" "\<not> is_space2 a b" "\<not> is_space3 a b c"
    by blast
  then show ?case
  proof cases
    case 1
    with "1.IH"(1) obtain u where "b # c # rest = u @ trim_start (b # c # rest)" by blast
    then have "a # b # c # rest = (a # u) @ trim_start (b # c # rest)" by simp
    with 1 show ?thesis by (metis trim_start.simps(1))
  next
    case 2
    with "1.IH"(2) obtain u where "c # rest = u @ trim_start (c # rest)" by blast
    then have "a # b # c # rest = (a # b # u) @ trim_start (c # rest)" by simp
    with 2 show ?thesis by (metis trim_start.simps(1))
  next
    case 3
    with "1.IH"(3) obtain u where "rest = u @ trim_start rest" by blast
    then have "a # b # c # rest = (a # b # c # u) @ trim_start rest" by simp
    with 3 show ?thesis by (metis trim_start.simps(1))
  next
    case 4
    then have "trim_start (a # b # c # rest) = a # b # c # rest" by simp
    then show ?thesis by (metis append_Nil)
  qed
next
  case (2 a b)
  show ?case
  proof (cases "is_space a")
    case True
    with "2.IH" obtain u where "[b] = u @ trim_start [b]" by blast
    then have "[a, b] = (a # u) @ trim_start [b]" by simp
    with True show ?thesis by (metis trim_start.simps(2))
  next
    case False
    then show ?thesis by (cases "is_space2 a b") (auto intro: exI[of _ "[]"])
  qed
next
  case (3 a)
  then show ?case by (cases "is_space a") (auto intro: exI[of _ "[]"])
next
  case 4
  then show ?case by simp
qed

lemma trim_end_rev_suffix: "\<exists>u. s = u @ trim_end_rev s"
proof (induction s rule: trim_end_rev.induct)
  case (1 c b a rest)
  consider "is_space c" | "\<not> is_space c" "is_space2 b c"
    | "\<not> is_space c" "\<not> is_space2 b c" "is_space3 a b c"
    | "\<not> is_space c" "\<not> is_space2 b c" "\<not> is_space3 a b c"
    by blast
  then show ?case
  proof cases
    case 1
    with "1.IH"(1) obtain u where "b # a # rest = u @ trim_end_rev (b # a # rest)" by blast
    then have "c # b # a # rest = (c # u) @ trim_end_rev (b # a # rest)" by simp
    with 1 show ?thesis by (metis trim_end_rev.simps(1))
  next
    case 2
    with "1.IH"(2) obtain u where "a # rest = u @ trim_end_rev (a # rest)" by blast
    then have "c # b # a # rest = (c # b # u) @ trim_end_rev (a # rest)" by simp
    with 2 show ?thesis by (metis trim_end_rev.simps(1))
  next
    case 3
    with "1.IH"(3) obtain u where "rest = u @ trim_end_rev rest" by blast
    then have "c # b # a # rest = (c # b # a # u) @ trim_end_rev rest" by simp
    with 3 show ?thesis by (metis trim_end_rev.simps(1))
  next
    case 4
    then have "trim_end_rev (c # b # a # rest) = c # b # a # rest" by simp
    then show ?thesis by (metis append_Nil)
  qed
next
  case (2 b a)
  show ?case
  proof (cases "is_space b")
    case True
    with "2.IH" obtain u where "[a] = u @ trim_end_rev [a]" by blast
    then have "[b, a] = (b # u) @ trim_end_rev [a]" by simp
    with True show ?thesis by (metis trim_end_rev.simps(2))
  next
    case False
    then show ?thesis by (cases "is_space2 a b") (auto intro: exI[of _ "[]"])
  qed
next
  case (3 a)
  then show ?case by (cases "is_space a") (auto intro: exI[of _ "[]"])
next
  case 4
  then show ?case by simp
qed

lemma str_includes_iff: "str_includes pat s \<longleftrightarrow> (\<exists>u v. s = u @ pat @ v)"
proof (induction s)
  case Nil
  then show ?case by auto
next
  case (Cons c cs)
  have sw: "starts_with pat (c # cs) \<longleftrightarrow> (\<exists>v. c # cs = pat @ v)"
    unfolding starts_with_def
    by (metis append_eq_conv_conj append_take_drop_id)
  show ?case
  proof
    assume "str_includes pat (c # cs)"
    then consider "starts_with pat (c # cs)" | "str_includes pat cs" by auto
    then show "\<exists>u v. c # cs = u @ pat @ v"
    proof cases
      case 1
      then obtain v where "c # cs = pat @ v" using sw by blast
      then have "c # cs = [] @ pat @ v" by simp
      then show ?thesis by blast
    next
      case 2
      then obtain u v where "cs = u @ pat @ v" using Cons.IH by blast
      then have "c # cs = (c # u) @ pat @ v" by simp
      then show ?thesis by blast
    qed
  next
    assume "\<exists>u v. c # cs = u @ pat @ v"
    then obtain u v where uv: "c # cs = u @ pat @ v" by blast
    show "str_includes pat (c # cs)"
    proof (cases u)
      case Nil
      with uv have "starts_with pat (c # cs)" using sw by auto
      then show ?thesis by simp
    next
      case (Cons a u')
      with uv have "cs = u' @ pat @ v" by simp
      then have "str_includes pat cs" using Cons.IH by blast
      then show ?thesis by simp
    qed
  qed
qed

lemma trim_infix: "\<exists>u v. s = u @ trim s @ v"
proof -
  obtain u where u: "s = u @ trim_start s" using trim_start_suffix by blast
  obtain w where "rev (trim_start s) = w @ trim_end_rev (rev (trim_start s))"
    using trim_end_rev_suffix by blast
  then have "trim_start s = rev (trim_end_rev (rev (trim_start s))) @ rev w"
    by (metis rev_append rev_rev_ident)
  then have "trim_start s = trim s @ rev w" by (simp add: trim_def)
  with u show ?thesis by metis
qed

lemma str_includes_trim:
  assumes "str_includes pat (trim s)"
  shows "str_includes pat s"
proof -
  obtain a b where ab: "trim s = a @ pat @ b" using assms str_includes_iff by blast
  obtain u v where uv: "s = u @ trim s @ v" using trim_infix by blast
  have "s = (u @ a) @ pat @ (b @ v)" using ab uv by simp
  then show ?thesis using str_includes_iff by blast
qed

lemma str_includes_self: "str_includes pat pat"
  using str_includes_iff[of pat pat] by (metis append_Nil append_Nil2)

lemma trim_not_done:
  "\<not> str_includes ''[DONE]'' s \<Longrightarrow> trim s \<noteq> ''[DONE]''"
  using str_includes_trim[of "''[DONE]''" s] str_includes_self[of "''[DONE]''"] by metis

subsection \<open>Data lines\<close>

lemma data_line_includes: "str_includes ''data:'' (data_line p)"
  by (simp add: data_line_def starts_with_def)

lemma data_line_remove_first: "trim (remove_first ''data:'' (data_line p)) = trim p"
proof -
  have "remove_first ''data:'' (data_line p) = CHR '' '' # p"
    by (simp add: data_line_def starts_with_def)
  moreover have "is_space (CHR '' '')" by (simp add: is_space_def)
  ultimately show ?thesis by (simp add: trim_def trim_start_space)
qed

lemma data_line_strip: "strip_data_prefix (data_line p) = p"
  by (simp add: data_line_def strip_data_prefix_def starts_with_def)

lemma data_line_trim: "trim (data_line p) \<noteq> []"
proof -
  have "CHR ''d'' \<in> set (data_line p)" by (simp add: data_line_def)
  moreover have "(of_char (CHR ''d'') :: nat) < 128" by simp
  moreover have "\<not> is_space (CHR ''d'')" by (simp add: is_space_def)
  ultimately show ?thesis by (rule trim_nonempty)
qed

lemma data_line_newline: "CHR 0x0A \<in> set (data_line p) \<longleftrightarrow> CHR 0x0A \<in> set p"
  by (simp add: data_line_def)

lemma data_line_done: "str_includes ''[DONE]'' (data_line p) \<longleftrightarrow> str_includes ''[DONE]'' p"
  by (simp add: data_line_def starts_with_def)

text \<open>
  MistralClient takes a data line for the terminator only when its trimmed payload is the
  text \<^verbatim>\<open>[DONE]\<close>; OpenAIClient when the line contains that text.
\<close>

lemma mistral_line_data:
  "trim p \<noteq> ''[DONE]'' \<Longrightarrow> mistral_line P (data_line p) = forward_content P (trim p)"
  by (simp add: mistral_line_def data_line_includes data_line_remove_first)

lemma trim_done: "trim ''[DONE]'' = ''[DONE]''"
  by (simp add: trim_def is_space_def is_space2_def is_space3_def)

lemma mistral_line_done: "mistral_line P (data_line ''[DONE]'') = [Done]"
  by (simp add: mistral_line_def data_line_includes data_line_remove_first trim_done)

lemma mistral_lines_data:
  assumes "\<forall>p \<in> set ps. trim p \<noteq> ''[DONE]''"
  shows "concat (map (mistral_line P) (map data_line ps))
           = concat (map (\<lambda>p. forward_content P (trim p)) ps)"
  using assms by (induction ps) (auto simp: mistral_line_data)

lemma openai_lines_plain:
  assumes "\<forall>l \<in> set ls. \<not> str_includes ''[DONE]'' l"
  shows "openai_lines P (ls @ rest)
           = concat (map (\<lambda>l. forward_content P (trim (strip_data_prefix l))) ls)
             @ openai_lines P rest"
  using assms by (induction ls) auto

lemma openai_lines_done: "openai_lines P [data_line ''[DONE]''] = [Done]"
  by (simp add: data_line_def starts_with_def)

lemma done_line_ok:
  "CHR 0x0A \<notin> set (data_line ''[DONE]'') \<and> trim (data_line ''[DONE]'') \<noteq> []"
  by (simp add: data_line_newline data_line_trim)

text \<open>
  Lines cut into chunks at line ends: MistralClient handles every line that is not blank,
  in order; so does OpenAIClient as long as no line contains the terminator text.
\<close>

lemma mistral_stream_prefix:
  assumes "\<forall>l \<in> set (concat groups). CHR 0x0A \<notin> set l"
  shows "mistral_stream P (line_chunks groups @ evs)
           = concat (map (mistral_line P) (filter (\<lambda>l. trim l \<noteq> []) (concat groups)))
             @ mistral_stream P evs"
  using assms
proof (induction groups)
  case Nil
  then show ?case by (simp add: line_chunks_def)
next
  case (Cons g groups)
  have ok: "\<forall>l \<in> set g. CHR 0x0A \<notin> set l"
    using Cons.prems by auto
  have "mistral_on_data P (unlines_nl g)
          = concat (map (mistral_line P) (filter (\<lambda>l. trim l \<noteq> []) g))"
    by (simp add: mistral_on_data_def chunk_lines_unlines[OF ok])
  moreover have "mistral_stream P (line_chunks groups @ evs)
          = concat (map (mistral_line P) (filter (\<lambda>l. trim l \<noteq> []) (concat groups)))
            @ mistral_stream P evs"
    using Cons.IH Cons.prems by auto
  ultimately show ?case by (simp add: line_chunks_def)
qed

lemma openai_stream_prefix:
  assumes "\<forall>l \<in> set (concat groups). CHR 0x0A \<notin> set l"
    and "\<forall>l \<in> set (concat groups). trim l \<noteq> [] \<longrightarrow> \<not> str_includes ''[DONE]'' l"
  shows "openai_stream P (line_chunks groups @ evs)
           = concat (map (\<lambda>l. forward_content P (trim (strip_data_prefix l)))
                         (filter (\<lambda>l. trim l \<noteq> []) (concat groups)))
             @ openai_stream P evs"
  using assms
proof (induction groups)
  case Nil
  then show ?case by (simp add: line_chunks_def)
next
  case (Cons g groups)
  have ok: "\<forall>l \<in> set g. CHR 0x0A \<notin> set l"
    using Cons.prems by auto
  have d: "\<forall>l \<in> set (filter (\<lambda>l. trim l \<noteq> []) g). \<not> str_includes ''[DONE]'' l"
    using Cons.prems by auto
  have "openai_on_data P (unlines_nl g)
          = concat (map (\<lambda>l. forward_content P (trim (strip_data_prefix l)))
                        (filter (\<lambda>l. trim l \<noteq> []) g))"
    using openai_lines_plain[OF d, of P "[]"]
    by (simp add: openai_on_data_def chunk_lines_unlines[OF ok])
  moreover have "openai_stream P (line_chunks groups @ evs)
          = concat (map (\<lambda>l. forward_content P (trim (strip_data_prefix l)))
                        (filter (\<lambda>l. trim l \<noteq> []) (concat groups)))
            @ openai_stream P evs"
    using Cons.IH Cons.prems by auto
  ultimately show ?case by (simp add: line_chunks_def)
qed

text \<open>
  A stream whose lines, the blank ones apart, are data lines, followed by the terminator
  line, which ends the last chunk.
\<close>

lemma mistral_stream_data_lines:
  assumes nl: "\<forall>l \<in> set (concat groups @ g). CHR 0x0A \<notin> set l"
    and lines: "filter (\<lambda>l. trim l \<noteq> []) (concat groups @ g) = map data_line ps"
    and nd: "\<forall>p \<in> set ps. trim p \<noteq> ''[DONE]''"
  shows "mistral_stream P (line_chunks (groups @ [g @ [data_line ''[DONE]'']]) @ [End])
           = concat (map (\<lambda>p. forward_content P (trim p)) ps) @ [Done]"
proof -
  have nl': "\<forall>l \<in> set (concat (groups @ [g @ [data_line ''[DONE]'']])). CHR 0x0A \<notin> set l"
    using nl done_line_ok by auto
  have "filter (\<lambda>l. trim l \<noteq> []) (concat (groups @ [g @ [data_line ''[DONE]'']]))
          = filter (\<lambda>l. trim l \<noteq> []) (concat groups @ g) @ [data_line ''[DONE]'']"
    using done_line_ok by simp
  then have f: "filter (\<lambda>l. trim l \<noteq> []) (concat (groups @ [g @ [data_line ''[DONE]'']]))
          = map data_line ps @ [data_line ''[DONE]'']"
    using lines by simp
  have c: "concat (map (mistral_line P) (map data_line ps @ [data_line ''[DONE]'']))
          = concat (map (\<lambda>p. forward_content P (trim p)) ps) @ [Done]"
    unfolding map_append concat_append mistral_lines_data[OF nd, of P]
    by (simp add: mistral_line_done)
  have "mistral_stream P (line_chunks (groups @ [g @ [data_line ''[DONE]'']]) @ [End])
          = concat (map (mistral_line P) (map data_line ps @ [data_line ''[DONE]'']))
            @ mistral_stream P [End]"
    using mistral_stream_prefix[OF nl', of P "[End]"] unfolding f .
  then show ?thesis unfolding c by simp
qed

lemma openai_stream_data_lines:
  assumes nl: "\<forall>l \<in> set (concat groups @ g). CHR 0x0A \<notin> set l"
    and lines: "filter (\<lambda>l. trim l \<noteq> []) (concat groups @ g) = map data_line ps"
    and nd: "\<forall>p \<in> set ps. \<not> str_includes ''[DONE]'' p"
  shows "openai_stream P (line_chunks (groups @ [g @ [data_line ''[DONE]'']]))
           = concat (map (\<lambda>p. forward_content P (trim p)) ps) @ [Done]"
proof -
  let ?nb = "\<lambda>l. trim l \<noteq> []"
  let ?fwd = "\<lambda>l. forward_content P (trim (strip_data_prefix l))"
  have all: "\<forall>l \<in> set (filter ?nb (concat groups @ g)). \<not> str_includes ''[DONE]'' l"
    unfolding lines using nd by (auto simp: data_line_done)
  have nlp: "\<forall>l \<in> set (concat groups). CHR 0x0A \<notin> set l"
    using nl by auto
  have ndp: "\<forall>l \<in> set (concat groups). trim l \<noteq> [] \<longrightarrow> \<not> str_includes ''[DONE]'' l"
    using all by auto
  have nlg: "\<forall>l \<in> set (g @ [data_line ''[DONE]'']). CHR 0x0A \<notin> set l"
    using nl done_line_ok by auto
  have ndg: "\<forall>l \<in> set (filter ?nb g). \<not> str_includes ''[DONE]'' l"
    using all by auto
  have fg: "filter ?nb (g @ [data_line ''[DONE]'']) = filter ?nb g @ [data_line ''[DONE]'']"
    using done_line_ok by simp
  have o: "openai_on_data P (unlines_nl (g @ [data_line ''[DONE]'']))
             = concat (map ?fwd (filter ?nb g)) @ [Done]"
    unfolding openai_on_data_def chunk_lines_unlines[OF nlg] fg
              openai_lines_plain[OF ndg, of P "[data_line ''[DONE]'']"] openai_lines_done
    by (rule refl)
  have lc: "line_chunks (groups @ [g @ [data_line ''[DONE]'']])
              = line_chunks groups @ [Data (unlines_nl (g @ [data_line ''[DONE]'']))]"
    by (simp add: line_chunks_def)
  have "openai_stream P (line_chunks (groups @ [g @ [data_line ''[DONE]'']]))
          = concat (map ?fwd (filter ?nb (concat groups)))
            @ openai_stream P [Data (unlines_nl (g @ [data_line ''[DONE]'']))]"
    unfolding lc
    using openai_stream_prefix[OF nlp ndp, of P "[Data (unlines_nl (g @ [data_line ''[DONE]'']))]"] .
  also have "openai_stream P [Data (unlines_nl (g @ [data_line ''[DONE]'']))]
               = concat (map ?fwd (filter ?nb g)) @ [Done]"
    unfolding openai_stream.simps o by simp
  finally have "openai_stream P (line_chunks (groups @ [g @ [data_line ''[DONE]'']]))
          = concat (map ?fwd (filter ?nb (concat groups @ g))) @ [Done]"
    by simp
  also have "concat (map ?fwd (filter ?nb (concat groups @ g)))
               = concat (map (\<lambda>p. forward_content P (trim p)) ps)"
    unfolding lines by (simp add: o_def data_line_strip)
  finally show ?thesis .
qed

text \<open>OpenAIClient signals completion once more when the stream ends.\<close>

lemma openai_stream_end:
  "openai_stream P (evs @ [End]) = openai_stream P evs @ [Done]"
  by (induction P evs rule: openai_stream.induct) auto

lemma forward_content_good:
  "P (JStr d) = Some j \<Longrightarrow> delta_content j = Inr c \<Longrightarrow> truthy c \<Longrightarrow>
   forward_content P d = [Content c]"
  by (simp add: forward_content_def)

lemma forward_content_bad: "P (JStr d) = None \<Longrightarrow> forward_content P d = []"
  by (simp add: forward_content_def)

text \<open>Payloads that do not parse contribute nothing, wherever they stand.\<close>

lemma forward_parsed_only:
  "concat (map (\<lambda>p. forward_content P (trim p)) ps)
     = concat (map (\<lambda>p. forward_content P (trim p))
                   (filter (\<lambda>p. P (JStr (trim p)) \<noteq> None) ps))"
  by (induction ps) (auto simp: forward_content_bad)

text \<open>
  C9, as stated, for every byte stream of three data lines and the terminator line. Each
  handler splits every chunk into lines on its own: when the transport cuts the stream
  inside the terminator line, MistralClient forwards the three contents and never signals
  completion. OpenAIClient takes every line that contains the text \<^verbatim>\<open>[DONE]\<close> for the
  terminator: when the first content delta is that text, its data handler signals completion
  at once and forwards no content at all, where MistralClient forwards the three contents.
\<close>

theorem stream_cut_inside_line_counterexample:
  \<open>''data: {"choices":[{"delta":{"content":"Hel"}}]}\<newline>data: {"choices":[{"delta":{"content":"lo"}}]}\<newline>data: {"choices":[{"delta":{"content":"!"}}]}\<newline>da''
     @ ''ta: [DONE]\<newline>''
   = unlines_nl [data_line ''{"choices":[{"delta":{"content":"Hel"}}]}'',
                 data_line ''{"choices":[{"delta":{"content":"lo"}}]}'',
                 data_line ''{"choices":[{"delta":{"content":"!"}}]}'',
                 data_line ''[DONE]''] \<and>
   mistral_stream JSON_parse_ref
     [Data ''data: {"choices":[{"delta":{"content":"Hel"}}]}\<newline>data: {"choices":[{"delta":{"content":"lo"}}]}\<newline>data: {"choices":[{"delta":{"content":"!"}}]}\<newline>da'',
      Data ''ta: [DONE]\<newline>'',
      End]
   = [Content (JStr ''Hel''), Content (JStr ''lo''), Content (JStr ''!'')] \<and>
   openai_stream JSON_parse_ref
     [Data (unlines_nl [data_line ''{"choices":[{"delta":{"content":"[DONE]"}}]}'',
                        data_line ''{"choices":[{"delta":{"content":"lo"}}]}'',
                        data_line ''{"choices":[{"delta":{"content":"!"}}]}'',
                        data_line ''[DONE]''])]
   = [Done] \<and>
   mistral_stream JSON_parse_ref
     [Data (unlines_nl [data_line ''{"choices":[{"delta":{"content":"[DONE]"}}]}'',
                        data_line ''{"choices":[{"delta":{"content":"lo"}}]}'',
                        data_line ''{"choices":[{"delta":{"content":"!"}}]}'',
                        data_line ''[DONE]'']),
      End]
   = [Content (JStr ''[DONE]''), Content (JStr ''lo''), Content (JStr ''!''), Done]\<close>
  by code_simp

text \<open>
  C9, amended. The stream is a sequence of lines, each ended by a line feed and delivered in
  chunks that end at line ends, closed by the terminator line. Its lines are blank or data
  lines; no payload is the terminator text; exactly three payloads parse, and each of the
  three has a truthy content delta. Then MistralClient's handlers, up to and including the
  end of the stream, call the sink three times with the contents in order and then once with
  the completion signal: the data lines whose payload does not parse are skipped, wherever
  they stand. OpenAIClient's data handler makes the same calls provided no payload contains
  the text \<^verbatim>\<open>[DONE]\<close>.
\<close>

theorem stream_three_deltas_then_done:
  assumes nl: "\<forall>l \<in> set (concat groups @ g). CHR 0x0A \<notin> set l"
    and lines: "filter (\<lambda>l. trim l \<noteq> []) (concat groups @ g) = map data_line ps"
    and nd: "\<forall>p \<in> set ps. trim p \<noteq> ''[DONE]''"
    and parsed: "filter (\<lambda>p. P (JStr (trim p)) \<noteq> None) ps = [p1, p2, p3]"
    and d1: "P (JStr (trim p1)) = Some j1" "delta_content j1 = Inr c1" "truthy c1"
    and d2: "P (JStr (trim p2)) = Some j2" "delta_content j2 = Inr c2" "truthy c2"
    and d3: "P (JStr (trim p3)) = Some j3" "delta_content j3 = Inr c3" "truthy c3"
  shows "mistral_stream P (line_chunks (groups @ [g @ [data_line ''[DONE]'']]) @ [End])
           = [Content c1, Content c2, Content c3, Done] \<and>
         ((\<forall>p \<in> set ps. \<not> str_includes ''[DONE]'' p) \<longrightarrow>
          openai_stream P (line_chunks (groups @ [g @ [data_line ''[DONE]'']]))
            = [Content c1, Content c2, Content c3, Done])"
proof -
  have "concat (map (\<lambda>p. forward_content P (trim p)) ps)
          = concat (map (\<lambda>p. forward_content P (trim p)) [p1, p2, p3])"
    using forward_parsed_only[of P ps] parsed by simp
  also have "\<dots> = [Content c1, Content c2, Content c3]"
    using d1 d2 d3 by (simp add: forward_content_good)
  finally have all: "concat (map (\<lambda>p. forward_content P (trim p)) ps)
                       = [Content c1, Content c2, Content c3]" .
  have m: "mistral_stream P (line_chunks (groups @ [g @ [data_line ''[DONE]'']]) @ [End])
             = [Content c1, Content c2, Content c3, Done]"
    using mistral_stream_data_lines[OF nl lines nd, of P] all by simp
  have o: "openai_stream P (line_chunks (groups @ [g @ [data_line ''[DONE]'']]))
             = [Content c1, Content c2, Content c3, Done]"
    if "\<forall>p \<in> set ps. \<not> str_includes ''[DONE]'' p"
    using openai_stream_data_lines[OF nl lines that, of P] all by simp
  show ?thesis using m o by blast
qed

theorem stream_three_deltas_then_done_witness:
  \<open>mistral_stream JSON_parse_ref
     (line_chunks ([[data_line ''{"choices":'', [],
                     data_line (CHR 0xC2 # CHR 0xA0 # ''{"choices":[{"delta":{"content":"Hel"}}]}'')],
                    [[], data_line ''{"choices":[{"delta":{"content":"lo"}}]}'', [],
                     data_line ''not json'']]
                   @ [[[], data_line ''{"choices":[{"delta":{"content":"!"}}]}'', []]
                      @ [data_line ''[DONE]'']])
      @ [End])
     = [Content (JStr ''Hel''), Content (JStr ''lo''), Content (JStr ''!''), Done] \<and>
   openai_stream JSON_parse_ref
     (line_chunks ([[data_line ''{"choices":'', [],
                     data_line (CHR 0xC2 # CHR 0xA0 # ''{"choices":[{"delta":{"content":"Hel"}}]}'')],
                    [[], data_line ''{"choices":[{"delta":{"content":"lo"}}]}'', [],
                     data_line ''not json'']]
                   @ [[[], data_line ''{"choices":[{"delta":{"content":"!"}}]}'', []]
                      @ [data_line ''[DONE]'']]))
     = [Content (JStr ''Hel''), Content (JStr ''lo''), Content (JStr ''!''), Done]\<close>
proof -
  let ?p1 = \<open>CHR 0xC2 # CHR 0xA0 # ''{"choices":[{"delta":{"content":"Hel"}}]}''\<close>
  let ?p2 = \<open>''{"choices":[{"delta":{"content":"lo"}}]}''\<close>
  let ?p3 = \<open>''{"choices":[{"delta":{"content":"!"}}]}''\<close>
  let ?q1 = \<open>''{"choices":''\<close>
  let ?q2 = \<open>''not json''\<close>
  let ?groups = "[[data_line ?q1, [], data_line ?p1], [[], data_line ?p2, [], data_line ?q2]]"
  let ?g = "[[], data_line ?p3, []]"
  let ?ps = "[?q1, ?p1, ?p2, ?q2, ?p3]"
  let ?j = "\<lambda>s. JObj [(''choices'', JArr [JObj [(''delta'', JObj [(''content'', JStr s)])]])]"
  have nl: "\<forall>l \<in> set (concat ?groups @ ?g). CHR 0x0A \<notin> set l"
    by (simp add: data_line_def)
  have lines: "filter (\<lambda>l. trim l \<noteq> []) (concat ?groups @ ?g) = map data_line ?ps"
    by (simp add: data_line_trim trim_Nil)
  have t1: "trim ?q1 \<noteq> ''[DONE]''" by code_simp
  have t2: "trim ?p1 \<noteq> ''[DONE]''" by code_simp
  have t3: "trim ?p2 \<noteq> ''[DONE]''" by code_simp
  have t4: "trim ?q2 \<noteq> ''[DONE]''" by code_simp
  have t5: "trim ?p3 \<noteq> ''[DONE]''" by code_simp
  have nd: "\<forall>p \<in> set ?ps. trim p \<noteq> ''[DONE]''"
    using t1 t2 t3 t4 t5 by simp
  have e1: "JSON_parse_ref (JStr (trim ?p1)) = Some (?j ''Hel'')" by code_simp
  have e2: "JSON_parse_ref (JStr (trim ?p2)) = Some (?j ''lo'')" by code_simp
  have e3: "JSON_parse_ref (JStr (trim ?p3)) = Some (?j ''!'')" by code_simp
  have b1: "JSON_parse_ref (JStr (trim ?q1)) = None" by code_simp
  have b2: "JSON_parse_ref (JStr (trim ?q2)) = None" by code_simp
  have parsed: "filter (\<lambda>p. JSON_parse_ref (JStr (trim p)) \<noteq> None) ?ps = [?p1, ?p2, ?p3]"
    using e1 e2 e3 b1 b2 by simp
  have c: "\<And>s. delta_content (?j s) = Inr (JStr s)"
    by (simp add: delta_content_def ebind_def)
  have s1: "\<not> str_includes ''[DONE]'' ?q1" by code_simp
  have s2: "\<not> str_includes ''[DONE]'' ?p1" by code_simp
  have s3: "\<not> str_includes ''[DONE]'' ?p2" by code_simp
  have s4: "\<not> str_includes ''[DONE]'' ?q2" by code_simp
  have s5: "\<not> str_includes ''[DONE]'' ?p3" by code_simp
  have plain: "\<forall>p \<in> set ?ps. \<not> str_includes ''[DONE]'' p"
    using s1 s2 s3 s4 s5 by simp
  have tr: "truthy (JStr ''Hel'')" "truthy (JStr ''lo'')" "truthy (JStr ''!'')"
    by simp_all
  show ?thesis
    using stream_three_deltas_then_done
            [OF nl lines nd parsed e1 c tr(1) e2 c tr(2) e3 c tr(3)] plain
    by blast
qed

subsection \<open>Orders and stock\<close>

lemma order_create_Inr:
  assumes "order_create st ord = Inr st1"
  shows "orders st1 = orders st @ [last (orders st1)]"
    and "products st1 = products st" and "configs st1 = configs st"
    and "sessions st1 = sessions st"
    and "o_status (last (orders st1)) = o_status ord"
    and "requestedQty (last (orders st1)) = requestedQty ord"
  using assms by (auto simp: order_create_def Let_def split: if_splits)

lemma order_create_Inl: "order_create st ord = Inl x \<Longrightarrow> x = ValidationError"
  by (auto simp: order_create_def Let_def split: if_splits)

text \<open>What \<^verbatim>\<open>POST /order\<close> does once the request has passed its checks.\<close>

lemma post_order_result:
  assumes "post_order srch st body = (st', Inr ord)"
  shows "\<exists>st1. order_create st
            \<lparr>o_botId = the (b_botId body),
             o_productName =
               (case srch (find_products st (the (b_botId body))) (JStr (the (b_productName body))) of
                  [] \<Rightarrow> the (b_productName body) | p # _ \<Rightarrow> productName p),
             requestedQty = the (b_requestedQty body),
             userQuery = the (b_userQuery body),
             o_userId = b_userId body,
             o_sessionId = b_sessionId body,
             o_status = Pending,
             o_notes = None\<rparr> = Inr st1 \<and>
          (case srch (find_products st (the (b_botId body))) (JStr (the (b_productName body))) of
             [] \<Rightarrow> st' = st1 \<and> ord = last (orders st1)
           | p # _ \<Rightarrow>
               if availableStock p \<ge> the (b_requestedQty body)
               then ord = (last (orders st1))\<lparr>o_status := Confirmed\<rparr>
                    \<and> st' = st1\<lparr>orders := butlast (orders st1) @ [ord]\<rparr>
               else st' = st1 \<and> ord = last (orders st1))"
  using assms
  by (auto simp: post_order_def Let_def split: if_splits option.splits sum.splits list.splits)

lemma post_order_error: "post_order srch st body = (st', Inl err) \<Longrightarrow> st' = st"
  by (auto simp: post_order_def Let_def split: if_splits option.splits sum.splits list.splits)

lemma order_branch_orders:
  assumes "order_branch e st botId msg uid sess name quantity = (st2, out)"
  shows "st2 = st \<or>
         (\<exists>ord p ps. orders st2 = orders st @ [ord] \<and> products st2 = products st \<and>
            o_status ord = Confirmed \<and>
            search e (find_products st botId) name = p # ps \<and>
            stock_covers e (availableStock p) quantity = Inr True \<and>
            cast_quantity e quantity = Some (requestedQty ord) \<and>
            out = Inr (OrderConfirmed quantity p))"
proof (cases "st2 = st")
  case True
  then show ?thesis by simp
next
  case False
  with assms obtain p ps n st1 where
    s: "search e (find_products st botId) name = p # ps"
    and a: "stock_covers e (availableStock p) quantity = Inr True"
    and q: "cast_quantity e quantity = Some n"
    and c: "order_create st \<lparr>o_botId = botId, o_productName = productName p, requestedQty = n,
              userQuery = msg, o_userId = uid, o_sessionId = Some (s_id sess),
              o_status = Confirmed, o_notes = None\<rparr> = Inr st1"
    and r: "st2 = st1" "out = Inr (OrderConfirmed quantity p)"
    by (auto simp: order_branch_def Let_def
             split: if_splits list.splits sum.splits option.splits bool.splits)
  from order_create_Inr[OF c] s q a r show ?thesis
    by (intro disjI2 exI[of _ "last (orders st1)"] exI[of _ p] exI[of _ ps]) simp
qed

lemma process_intent_orders:
  assumes "process_intent e st botId msg uid sess d = (st2, out)"
  shows "st2 = st \<or>
         (\<exists>ord p ps. orders st2 = orders st @ [ord] \<and> products st2 = products st \<and>
            o_status ord = Confirmed \<and>
            search e (find_products st botId) (opt_prop d ''productName'') = p # ps \<and>
            stock_covers e (availableStock p) (opt_prop d ''quantity'') = Inr True \<and>
            cast_quantity e (opt_prop d ''quantity'') = Some (requestedQty ord))"
proof (cases "st2 = st")
  case True
  then show ?thesis by simp
next
  case False
  with assms obtain o2 where
    "order_branch e st botId msg uid sess (opt_prop d ''productName'') (opt_prop d ''quantity'')
       = (st2, o2)"
    by (auto simp: process_intent_def Let_def split: sum.splits if_splits prod.splits)
  from order_branch_orders[OF this] False show ?thesis by blast
qed

text \<open>On a number the comparison and the stored quantity are the number itself.\<close>

lemma stock_covers_number: "stock_covers e stock (JNum n) = Inr (stock \<ge> n)"
  by (simp add: stock_covers_def)

lemma cast_quantity_number: "cast_quantity e (JNum n) = Some n"
  by (simp add: cast_quantity_def)

text \<open>
  The stock is at least the stored quantity when the quantity of the intent is a number, and
  for any other quantity as soon as the conversion made by \<^verbatim>\<open>>=\<close> yields the number that
  the cast yields.
\<close>

lemma covers_cast:
  assumes "stock_covers e stock q = Inr True" and "cast_quantity e q = Some r"
    and "(\<exists>n. q = JNum n) \<or>
         (\<forall>s v n. castNumber e v = Some n \<longrightarrow> ge_converted e s v = Inr (s \<ge> n))"
  shows "stock \<ge> r"
  using assms by (cases q) (auto simp: stock_covers_def cast_quantity_def)

text \<open>
  C1: the record that \<^verbatim>\<open>POST /order\<close> creates is confirmed exactly when the search has a
  first result whose stock is at least the requested quantity, and pending otherwise; a
  request that fails creates nothing. The intent handler either leaves the orders as they
  are or appends one confirmed record; then the comparison
  \<^verbatim>\<open>product.availableStock >= intentData.quantity\<close> held for the first result of the search
  and the record holds the quantity of the intent cast to a number. The stock is at least
  the quantity of the record when the quantity of the intent is a number, and for a quantity
  of any other type when the conversion made by the comparison yields the number that the
  cast yields.
\<close>

theorem confirmed_only_if_stock_suffices:
  "(post_order srch st body = (st', Inr ord) \<longrightarrow>
      orders st' = orders st @ [ord] \<and>
      requestedQty ord = the (b_requestedQty body) \<and>
      (o_status ord = Confirmed \<or> o_status ord = Pending) \<and>
      (o_status ord = Confirmed \<longleftrightarrow>
         (\<exists>p ps. srch (find_products st (the (b_botId body))) (JStr (the (b_productName body)))
                    = p # ps \<and>
                  availableStock p \<ge> requestedQty ord))) \<and>
   (post_order srch st body = (st', Inl err) \<longrightarrow> orders st' = orders st) \<and>
   (process_intent e st botId msg uid sess d = (st2, out) \<longrightarrow>
      orders st2 = orders st \<or>
      (\<exists>ord p ps. orders st2 = orders st @ [ord] \<and> o_status ord = Confirmed \<and>
         search e (find_products st botId) (opt_prop d ''productName'') = p # ps \<and>
         stock_covers e (availableStock p) (opt_prop d ''quantity'') = Inr True \<and>
         cast_quantity e (opt_prop d ''quantity'') = Some (requestedQty ord) \<and>
         ((\<exists>n. opt_prop d ''quantity'' = JNum n) \<or>
          (\<forall>s v n. castNumber e v = Some n \<longrightarrow> ge_converted e s v = Inr (s \<ge> n))
          \<longrightarrow> availableStock p \<ge> requestedQty ord)))"
proof (intro conjI impI)
  assume a: "post_order srch st body = (st', Inr ord)"
  from post_order_result[OF a] obtain st1 where
    c: "order_create st
            \<lparr>o_botId = the (b_botId body),
             o_productName =
               (case srch (find_products st (the (b_botId body))) (JStr (the (b_productName body))) of
                  [] \<Rightarrow> the (b_productName body) | p # _ \<Rightarrow> productName p),
             requestedQty = the (b_requestedQty body),
             userQuery = the (b_userQuery body),
             o_userId = b_userId body,
             o_sessionId = b_sessionId body,
             o_status = Pending,
             o_notes = None\<rparr> = Inr st1"
    and r: "(case srch (find_products st (the (b_botId body))) (JStr (the (b_productName body))) of
             [] \<Rightarrow> st' = st1 \<and> ord = last (orders st1)
           | p # _ \<Rightarrow>
               if availableStock p \<ge> the (b_requestedQty body)
               then ord = (last (orders st1))\<lparr>o_status := Confirmed\<rparr>
                    \<and> st' = st1\<lparr>orders := butlast (orders st1) @ [ord]\<rparr>
               else st' = st1 \<and> ord = last (orders st1))"
    by blast
  note f = order_create_Inr[OF c]
  have bl: "butlast (orders st1) = orders st"
    using f(1) by (metis butlast_snoc)
  show "orders st' = orders st @ [ord]"
    using r f(1) bl by (auto split: list.splits if_splits)
  show q: "requestedQty ord = the (b_requestedQty body)"
    using r f(6) by (auto split: list.splits if_splits)
  show "o_status ord = Confirmed \<or> o_status ord = Pending"
    using r f(5) by (auto split: list.splits if_splits)
  show "o_status ord = Confirmed \<longleftrightarrow>
         (\<exists>p ps. srch (find_products st (the (b_botId body))) (JStr (the (b_productName body)))
                    = p # ps \<and>
                  availableStock p \<ge> requestedQty ord)"
    unfolding q using r f(5) by (auto split: list.splits if_splits)
next
  assume "post_order srch st body = (st', Inl err)"
  then show "orders st' = orders st" using post_order_error by blast
next
  assume "process_intent e st botId msg uid sess d = (st2, out)"
  from process_intent_orders[OF this]
  consider "st2 = st"
    | ord p ps where "orders st2 = orders st @ [ord]" "o_status ord = Confirmed"
        "search e (find_products st botId) (opt_prop d ''productName'') = p # ps"
        "stock_covers e (availableStock p) (opt_prop d ''quantity'') = Inr True"
        "cast_quantity e (opt_prop d ''quantity'') = Some (requestedQty ord)"
    by blast
  then show "orders st2 = orders st \<or>
      (\<exists>ord p ps. orders st2 = orders st @ [ord] \<and> o_status ord = Confirmed \<and>
         search e (find_products st botId) (opt_prop d ''productName'') = p # ps \<and>
         stock_covers e (availableStock p) (opt_prop d ''quantity'') = Inr True \<and>
         cast_quantity e (opt_prop d ''quantity'') = Some (requestedQty ord) \<and>
         ((\<exists>n. opt_prop d ''quantity'' = JNum n) \<or>
          (\<forall>s v n. castNumber e v = Some n \<longrightarrow> ge_converted e s v = Inr (s \<ge> n))
          \<longrightarrow> availableStock p \<ge> requestedQty ord))"
  proof cases
    case 1
    then show ?thesis by simp
  next
    case 2
    have "(\<exists>n. opt_prop d ''quantity'' = JNum n) \<or>
          (\<forall>s v n. castNumber e v = Some n \<longrightarrow> ge_converted e s v = Inr (s \<ge> n))
          \<longrightarrow> availableStock p \<ge> requestedQty ord"
      using covers_cast[OF 2(4) 2(5)] by blast
    with 2 show ?thesis by blast
  qed
qed

theorem confirmed_only_if_stock_suffices_witness:
  "post_order demo_search demo_store (demo_order_body 3)
     = (demo_store\<lparr>orders := [demo_order 3 Confirmed]\<rparr>, Inr (demo_order 3 Confirmed)) \<and>
   availableStock demo_product \<ge> 3 \<and>
   post_order demo_search demo_store (demo_order_body 30)
     = (demo_store\<lparr>orders := [demo_order 30 Pending]\<rparr>, Inr (demo_order 30 Pending)) \<and>
   \<not> availableStock demo_product \<ge> 30 \<and>
   post_order demo_search demo_store (demo_order_body (- 1))
     = (demo_store, Inl (Thrown ValidationError)) \<and>
   orders (fst (process_intent demo_env demo_store ''bot1'' ''I want to order 3 printers''
                  (Some ''u1'') demo_session (demo_intent 3)))
     = [demo_order 3 Confirmed\<lparr>userQuery := ''I want to order 3 printers'',
                                 o_sessionId := Some ''s1''\<rparr>] \<and>
   o_status (demo_order 3 Confirmed\<lparr>userQuery := ''I want to order 3 printers'',
                                     o_sessionId := Some ''s1''\<rparr>) = Confirmed \<and>
   orders (fst (process_intent demo_env demo_store ''bot1'' ''I want to order 3 printers''
                  (Some ''u1'') demo_session (demo_intent_str ''3'')))
     = [demo_order 3 Confirmed\<lparr>userQuery := ''I want to order 3 printers'',
                                 o_sessionId := Some ''s1''\<rparr>] \<and>
   availableStock demo_product
     \<ge> requestedQty (demo_order 3 Confirmed\<lparr>userQuery := ''I want to order 3 printers'',
                                              o_sessionId := Some ''s1''\<rparr>) \<and>
   fst (process_intent demo_env demo_store ''bot1'' ''I want to order 30 printers''
          (Some ''u1'') demo_session (demo_intent_str ''30'')) = demo_store"
proof -
  let ?S3 = "demo_store\<lparr>orders := [demo_order 3 Confirmed]\<rparr>"
  let ?S30 = "demo_store\<lparr>orders := [demo_order 30 Pending]\<rparr>"
  let ?O = "demo_order 3 Confirmed\<lparr>userQuery := ''I want to order 3 printers'',
                                 o_sessionId := Some ''s1''\<rparr>"
  let ?out = "Inr \<lparr>r_intent = demo_intent 3, r_isHindi = False,
             r_reply = OrderConfirmed (JNum 3) demo_product\<rparr>"
  let ?outs = "Inr \<lparr>r_intent = demo_intent_str ''3'', r_isHindi = False,
             r_reply = OrderConfirmed (JStr ''3'') demo_product\<rparr>"
  have a: "post_order demo_search demo_store (demo_order_body 3) = (?S3, Inr (demo_order 3 Confirmed))"
    by code_simp
  have b: "post_order demo_search demo_store (demo_order_body 30) = (?S30, Inr (demo_order 30 Pending))"
    by code_simp
  have c: "post_order demo_search demo_store (demo_order_body (- 1))
     = (demo_store, Inl (Thrown ValidationError))"
    by code_simp
  have d: "process_intent demo_env demo_store ''bot1'' ''I want to order 3 printers''
                  (Some ''u1'') demo_session (demo_intent 3) = (demo_store\<lparr>orders := [?O]\<rparr>, ?out)"
    by code_simp
  have ds: "process_intent demo_env demo_store ''bot1'' ''I want to order 3 printers''
                  (Some ''u1'') demo_session (demo_intent_str ''3'')
              = (demo_store\<lparr>orders := [?O]\<rparr>, ?outs)"
    by code_simp
  have d30: "fst (process_intent demo_env demo_store ''bot1'' ''I want to order 30 printers''
                  (Some ''u1'') demo_session (demo_intent_str ''30'')) = demo_store"
    by code_simp
  have s: "demo_search (find_products demo_store (the (b_botId (demo_order_body q))))
             (JStr (the (b_productName (demo_order_body q)))) = [demo_product]" for q
    by (simp add: demo_search_def find_products_def demo_store_def demo_product_def
                  demo_order_body_def)
  have si: "search demo_env (find_products demo_store ''bot1'') v = [demo_product]" for v
    by (simp add: demo_env_def demo_search_def find_products_def demo_store_def
                  demo_product_def)
  have agree: "\<forall>s v n. castNumber demo_env v = Some n \<longrightarrow>
                 ge_converted demo_env s v = Inr (s \<ge> n)"
    by (simp add: demo_env_def demo_ge_def)
  have r: "requestedQty (demo_order q x) = q" "o_status (demo_order q x) = x" for q x
    by (simp_all add: demo_order_def)
  note t = confirmed_only_if_stock_suffices
             [of demo_search demo_store _ _ _ _ demo_env "''bot1''" "''I want to order 3 printers''"
                 "Some ''u1''" demo_session "demo_intent 3" "demo_store\<lparr>orders := [?O]\<rparr>" ?out]
  from t[of "demo_order_body 3" ?S3 "demo_order 3 Confirmed" "Thrown ValidationError"] a
  have "\<exists>p ps. [demo_product] = p # ps \<and> availableStock p \<ge> 3"
    unfolding s r by blast
  then have 1: "availableStock demo_product \<ge> 3" by auto
  from t[of "demo_order_body 30" ?S30 "demo_order 30 Pending" "Thrown ValidationError"] b
  have "\<not> (\<exists>p ps. [demo_product] = p # ps \<and> availableStock p \<ge> 30)"
    unfolding s r by blast
  then have 2: "\<not> availableStock demo_product \<ge> 30" by auto
  from t[of "demo_order_body (- 1)" demo_store "demo_order 3 Confirmed" "Thrown ValidationError"] c
  have 3: "orders demo_store = orders demo_store" by blast
  from d have 4: "orders (fst (process_intent demo_env demo_store ''bot1''
                    ''I want to order 3 printers'' (Some ''u1'') demo_session (demo_intent 3)))
                  = [?O]"
    by simp
  have o: "orders demo_store = []" "orders (demo_store\<lparr>orders := [?O]\<rparr>) = [?O]"
    by (simp_all add: demo_store_def)
  from t[of "demo_order_body 3" ?S3 "demo_order 3 Confirmed" "Thrown ValidationError"] d
  have "[?O] = [] \<or> (\<exists>ord. [?O] = [] @ [ord] \<and> o_status ord = Confirmed)"
    unfolding o by blast
  then have 5: "o_status ?O = Confirmed" by auto
  from ds have 6: "orders (fst (process_intent demo_env demo_store ''bot1''
                    ''I want to order 3 printers'' (Some ''u1'') demo_session
                    (demo_intent_str ''3''))) = [?O]"
    by simp
  note ts = confirmed_only_if_stock_suffices
             [of demo_search demo_store "demo_order_body 3" ?S3 "demo_order 3 Confirmed"
                 "Thrown ValidationError" demo_env "''bot1''" "''I want to order 3 printers''"
                 "Some ''u1''" demo_session "demo_intent_str ''3''"
                 "demo_store\<lparr>orders := [?O]\<rparr>" ?outs]
  from ts ds agree
  have "[?O] = [] \<or>
        (\<exists>ord p ps. [?O] = [] @ [ord] \<and> [demo_product] = p # ps \<and>
           availableStock p \<ge> requestedQty ord)"
    unfolding o si by blast
  then have 7: "availableStock demo_product \<ge> requestedQty ?O" by auto
  from a b c 1 2 4 5 6 7 d30 show ?thesis by blast
qed

text \<open>
  C5: an order intent with a product name and a numeric quantity, whose first search result
  is a product of the bot with a stock above zero and below the quantity. The handler answers
  with the "only N available" template for that product and leaves the store as it is: no
  order record is created.
\<close>

theorem partial_stock_offers_smaller_quantity:
  assumes "get_prop d ''intent'' = Inr (JStr ''order_intent'')"
    and "truthy (opt_prop d ''productName'')"
    and "opt_prop d ''quantity'' = JNum n"
    and "search e (find_products st botId) (opt_prop d ''productName'') = p # ps"
    and "p \<in> set (find_products st botId)"
    and "0 < availableStock p" and "availableStock p < n"
  shows "process_intent e st botId msg uid sess d =
           (st, Inr \<lparr>r_intent = d, r_isHindi = containsHindi msg, r_reply = OnlyAvailable p\<rparr>)"
proof -
  have ne: "find_products st botId \<noteq> []" using assms(5) by auto
  have "order_branch e st botId msg uid sess (opt_prop d ''productName'') (JNum n)
          = (st, Inr (OnlyAvailable p))"
    using assms(4,6,7) ne by (simp add: order_branch_def stock_covers_def Let_def)
  moreover have "truthy (JNum n)" using assms(6,7) by simp
  ultimately show ?thesis
    using assms(1,2,3) by (simp add: process_intent_def Let_def)
qed

theorem partial_stock_offers_smaller_quantity_witness:
  "process_intent demo_env demo_store ''bot1'' ''I want to order 30 printers'' (Some ''u1'')
     demo_session (demo_intent 30)
   = (demo_store,
      Inr \<lparr>r_intent = demo_intent 30,
           r_isHindi = containsHindi ''I want to order 30 printers'',
           r_reply = OnlyAvailable demo_product\<rparr>)"
proof (rule partial_stock_offers_smaller_quantity[where n = 30 and ps = "[]"])
  show "get_prop (demo_intent 30) ''intent'' = Inr (JStr ''order_intent'')" by code_simp
  show "truthy (opt_prop (demo_intent 30) ''productName'')" by code_simp
  show "opt_prop (demo_intent 30) ''quantity'' = JNum 30" by code_simp
  show "search demo_env (find_products demo_store ''bot1'') (opt_prop (demo_intent 30) ''productName'')
          = [demo_product]" by code_simp
  show "demo_product \<in> set (find_products demo_store ''bot1'')" by code_simp
  show "0 < availableStock demo_product" by code_simp
  show "availableStock demo_product < 30" by code_simp
qed

subsection \<open>The stock\<close>







subsection \<open>Intent resolution\<close>

lemma reply_fields_keys:
  "reply_fields resp = Inr fs \<Longrightarrow>
   \<exists>r m u. fs = [(''reply'', r), (''model'', m), (''usage'', u)]"
  by (auto simp: reply_fields_def ebind_def split: option.splits sum.splits)

text \<open>A null configuration makes the manager throw before any HTTP call.\<close>

lemma manager_null_config:
  "aiClientManager_generateResponse outcomes rand lat None = Inl ManagerTypeError"
  by (simp add: aiClientManager_generateResponse_def)

text \<open>
  The object both clients return has the fields \<open>reply\<close>, \<open>model\<close>, \<open>usage\<close> (and
  \<open>latency\<close>): reading \<open>content\<close> from it gives \<open>undefined\<close>.
\<close>

lemma client_result_no_content:
  assumes "aiClientManager_generateResponse outcomes rand lat cfg = Inr a"
  shows "get_prop a ''content'' = Inr JUndefined \<and> (\<exists>r. get_prop a ''reply'' = Inr r)"
proof -
  from assms obtain fs resp where
    "reply_fields resp = Inr fs"
    "a = JObj (fs @ [(''latency'', JNum lat)]) \<or> a = JObj fs"
    by (auto simp: aiClientManager_generateResponse_def mistral_generateResponse_def
                   openai_generateResponse_def ebind_def Let_def
             split: option.splits registry_value.splits client.splits sum.splits)
  with reply_fields_keys[of resp fs] show ?thesis by auto
qed

lemma resolveIntent_default:
  "get_prop a ''content'' = Inr c \<Longrightarrow> P c = None \<Longrightarrow> resolveIntent P a = default_intent"
  by (simp add: resolveIntent_def ebind_def)

lemma resolveIntent_parsed:
  "get_prop a ''content'' = Inr c \<Longrightarrow> P c = Some v \<Longrightarrow> resolveIntent P a = v"
  by (simp add: resolveIntent_def ebind_def)

lemma process_default_intent:
  "process_intent e st botId msg uid sess default_intent =
     (st, Inr \<lparr>r_intent = default_intent, r_isHindi = containsHindi msg, r_reply = Help\<rparr>)"
  by (simp add: process_intent_def default_intent_def Let_def)

text \<open>
  C4: the intent endpoint parses the field \<open>content\<close> of the object the client returns,
  which has no such field. With a \<^verbatim>\<open>JSON.parse\<close> that throws on \<open>undefined\<close>, as
  JavaScript's does, every answer of the endpoint carries the default intent and the help
  reply, whatever the vendor replied; no order is created and no product is touched.
\<close>

theorem intent_endpoint_always_other:
  assumes "JSON_parse e JUndefined = None"
    and "post_intent e st body = (st', Inr r)"
  shows "r = \<lparr>r_intent = default_intent, r_isHindi = containsHindi (the (i_message body)),
              r_reply = Help\<rparr> \<and>
         orders st' = orders st \<and> products st' = products st"
proof -
  have key: "\<And>a. aiClientManager_generateResponse (post e) (rnd e) (latency e)
              (Some \<lparr>ai = None, system_prompt = Some intentDetectionPrompt,
                     inventoryEnabled = False\<rparr>) = Inr a \<Longrightarrow>
            resolveIntent (JSON_parse e) a = default_intent"
    using client_result_no_content resolveIntent_default assms(1) by blast
  from assms(2) show ?thesis
    by (auto simp: post_intent_def Let_def key process_default_intent
             split: if_splits option.splits sum.splits prod.splits)
qed

theorem intent_endpoint_always_other_witness:
  "JSON_parse_ref (JStr demo_intent_text) = Some (demo_intent 3) \<and>
   post_intent demo_env demo_store demo_intent_body
     = (demo_store\<lparr>sessions := [demo_session]\<rparr>,
        Inr \<lparr>r_intent = default_intent, r_isHindi = False, r_reply = Help\<rparr>)"
proof -
  have h1: "JSON_parse demo_env JUndefined = None" by code_simp
  have h2: "post_intent demo_env demo_store demo_intent_body
     = (demo_store\<lparr>sessions := [demo_session]\<rparr>,
        Inr \<lparr>r_intent = default_intent, r_isHindi = False, r_reply = Help\<rparr>)"
    by code_simp
  have p: "JSON_parse_ref (JStr demo_intent_text) = Some (demo_intent 3)" by code_simp
  from intent_endpoint_always_other[OF h1 h2] h2 p show ?thesis by simp
qed

text \<open>
  C8: when \<^verbatim>\<open>JSON.parse\<close> throws on what the resolver hands to it, the resolver returns
  the default intent; it returns a value in every case. In particular, when the reply text
  of the client's result does not parse, the default intent is returned.
\<close>

theorem resolveIntent_parse_failure:
  "(get_prop a ''content'' = Inr c \<and> P c = None \<longrightarrow> resolveIntent P a = default_intent) \<and>
   (aiClientManager_generateResponse outcomes rand lat cfg = Inr b \<and>
    get_prop b ''reply'' = Inr (JStr t) \<and> P (JStr t) = None \<and> P JUndefined = None
      \<longrightarrow> resolveIntent P b = default_intent)"
  using resolveIntent_default client_result_no_content by blast

theorem resolveIntent_parse_failure_witness:
  "resolveIntent JSON_parse_ref (JObj [(''content'', JStr ''Sure, 3 printers!'')]) = default_intent \<and>
   resolveIntent JSON_parse_ref
     (JObj [(''reply'', JStr ''Sure, 3 printers!''), (''model'', JStr ''mistral-small''),
            (''usage'', JObj [(''total_tokens'', JNum 42)]), (''latency'', JNum 120)])
     = default_intent"
proof -
  let ?a = "JObj [(''content'', JStr ''Sure, 3 printers!'')]"
  let ?b = "JObj [(''reply'', JStr ''Sure, 3 printers!''), (''model'', JStr ''mistral-small''),
            (''usage'', JObj [(''total_tokens'', JNum 42)]), (''latency'', JNum 120)]"
  have a1: "get_prop ?a ''content'' = Inr (JStr ''Sure, 3 printers!'')" by code_simp
  have a2: "JSON_parse_ref (JStr ''Sure, 3 printers!'') = None" by code_simp
  have b1: "aiClientManager_generateResponse
              (\<lambda>n. Responded (demo_vendor_answer ''Sure, 3 printers!'')) (\<lambda>k. 0) 120
              (Some \<lparr>ai = None, system_prompt = None, inventoryEnabled = False\<rparr>) = Inr ?b"
    by code_simp
  have b2: "get_prop ?b ''reply'' = Inr (JStr ''Sure, 3 printers!'')" by code_simp
  have b3: "JSON_parse_ref JUndefined = None" by code_simp
  note t = resolveIntent_parse_failure
             [of ?a "JStr ''Sure, 3 printers!''" JSON_parse_ref
                 "\<lambda>n. Responded (demo_vendor_answer ''Sure, 3 printers!'')" "\<lambda>k. 0" 120
                 "Some \<lparr>ai = None, system_prompt = None, inventoryEnabled = False\<rparr>" ?b
                 "''Sure, 3 printers!''"]
  from t a1 a2 have 1: "resolveIntent JSON_parse_ref ?a = default_intent" by blast
  from t b1 b2 a2 b3 have 2: "resolveIntent JSON_parse_ref ?b = default_intent" by blast
  from 1 2 show ?thesis by simp
qed

end
